theory Spec2Isabelle
  imports Main "HOL-Library.Word" "HOL-Library.Char_ord"
begin

unbundle bit_operations_syntax

section \<open>Errors (errors.go)\<close>

text \<open>
  Go errors are values. \<open>ProtocolError code message details\<close> is the struct
  \<^verbatim>\<open>Error{Code, Message, Details}\<close> of errors.go, the next five constructors are the
  sentinel errors made with \<^verbatim>\<open>errors.New\<close>, \<open>Wrapped msg e\<close> is
  \<^verbatim>\<open>fmt.Errorf("msg: %w", e)\<close>, and \<open>OtherError msg\<close> is any other error value
  (an I/O failure of a transport, a cancelled context, a failed library call).
\<close>

datatype error =
    ProtocolError string string string
  | ErrNonceExhausted
  | ErrEncryptedTransportRequired
  | ErrInvalidResponse
  | ErrChunkIntegrity
  | ErrForbiddenAlgorithm
  | Wrapped string error
  | OtherError string

definition CodeSuccess :: string where "CodeSuccess = ''E000''"
definition CodeBadRequest :: string where "CodeBadRequest = ''E001''"
definition CodeUnauthorized :: string where "CodeUnauthorized = ''E002''"
definition CodeForbidden :: string where "CodeForbidden = ''E003''"
definition CodeNotFound :: string where "CodeNotFound = ''E004''"
definition CodeConflict :: string where "CodeConflict = ''E005''"
definition CodePayloadTooLarge :: string where "CodePayloadTooLarge = ''E006''"
definition CodeInvalidFormat :: string where "CodeInvalidFormat = ''E007''"
definition CodeVersionMismatch :: string where "CodeVersionMismatch = ''E008''"
definition CodeNamespaceError :: string where "CodeNamespaceError = ''E009''"
definition CodeServerError :: string where "CodeServerError = ''E010''"
definition CodeUnavailable :: string where "CodeUnavailable = ''E011''"
definition CodeTimeout :: string where "CodeTimeout = ''E012''"
definition CodeRateLimited :: string where "CodeRateLimited = ''E013''"
definition CodeEncryptionRequired :: string where "CodeEncryptionRequired = ''E014''"

definition ErrUnauthorized :: error where
  "ErrUnauthorized = ProtocolError CodeUnauthorized ''authentication required'' ''''"

definition ErrNotFound :: error where
  "ErrNotFound = ProtocolError CodeNotFound ''resource not found'' ''''"

text \<open>\<^verbatim>\<open>errorFromCode\<close>: \<open>None\<close> is Go's nil error, returned for the success code.\<close>

definition errorFromCode :: "string \<Rightarrow> string \<Rightarrow> error option" where
  "errorFromCode code details =
     (if code = CodeSuccess then None
      else if code = CodeBadRequest then Some (ProtocolError code ''malformed query'' details)
      else if code = CodeUnauthorized then Some (ProtocolError code ''authentication required'' details)
      else if code = CodeForbidden then Some (ProtocolError code ''insufficient permissions'' details)
      else if code = CodeNotFound then Some (ProtocolError code ''resource not found'' details)
      else if code = CodeConflict then Some (ProtocolError code ''resource already exists'' details)
      else if code = CodePayloadTooLarge then Some (ProtocolError code ''data exceeds size limit'' details)
      else if code = CodeInvalidFormat then Some (ProtocolError code ''invalid data format'' details)
      else if code = CodeVersionMismatch then Some (ProtocolError code ''version conflict'' details)
      else if code = CodeNamespaceError then Some (ProtocolError code ''namespace error'' details)
      else if code = CodeServerError then Some (ProtocolError code ''internal server error'' details)
      else if code = CodeUnavailable then Some (ProtocolError code ''service unavailable'' details)
      else if code = CodeTimeout then Some (ProtocolError code ''query timeout'' details)
      else if code = CodeRateLimited then Some (ProtocolError code ''rate limit exceeded'' details)
      else if code = CodeEncryptionRequired then Some (ProtocolError code ''encryption required'' details)
      else Some (ProtocolError code ''unknown error'' details))"

text \<open>
  \<^verbatim>\<open>IsRetryable\<close>: \<^verbatim>\<open>errors.As\<close> walks the chain of wrapped errors to the first
  \<^verbatim>\<open>*Error\<close> and asks it \<^verbatim>\<open>Retryable()\<close>.
\<close>

fun IsRetryable :: "error \<Rightarrow> bool" where
  "IsRetryable (ProtocolError code msg details) =
     (code = CodeServerError \<or> code = CodeTimeout \<or> code = CodeRateLimited)"
| "IsRetryable (Wrapped msg e) = IsRetryable e"
| "IsRetryable e = False"

section \<open>Transport contract and the multi-transport (transport/transport.go)\<close>

type_synonym bytes = "8 word list"

record request =
  q_Name :: string
  q_Type :: "16 word"
  q_Labels :: "string list"

record transport_response =
  t_Data :: "bytes"
  t_TTL :: "32 word"
  t_Records :: "bytes list"

text \<open>
  A Go call returning \<^verbatim>\<open>(*Response, error)\<close> yields a pair of two nullable values:
  \<open>None\<close> is nil. A member transport is given by its name, its \<^verbatim>\<open>IsEncrypted\<close>
  flag and the outcome of its \<^verbatim>\<open>Query\<close> for a request.
\<close>

type_synonym query_result = "transport_response option \<times> error option"

record transport =
  t_Name :: string
  IsEncrypted :: bool
  Query :: "request \<Rightarrow> query_result"

record Multi =
  transports :: "transport list"

definition NewMulti :: "transport list \<Rightarrow> Multi" where
  "NewMulti ts = \<lparr> transports = ts \<rparr>"

text \<open>
  \<^verbatim>\<open>Multi.Query\<close>: the loop over the members carries \<^verbatim>\<open>lastErr\<close>; a member whose
  error is nil ends the loop with its response; after the loop the result is
  \<^verbatim>\<open>(nil, lastErr)\<close>.
\<close>

fun Multi_Query_loop :: "transport list \<Rightarrow> request \<Rightarrow> error option \<Rightarrow> query_result" where
  "Multi_Query_loop [] req lastErr = (None, lastErr)"
| "Multi_Query_loop (t # ts) req lastErr =
     (case Query t req of
        (resp, None) \<Rightarrow> (resp, None)
      | (resp, Some err) \<Rightarrow> Multi_Query_loop ts req (Some err))"

definition Multi_Query :: "Multi \<Rightarrow> request \<Rightarrow> query_result" where
  "Multi_Query m req = Multi_Query_loop (transports m) req None"

text \<open>
  \<^verbatim>\<open>Multi.IsEncrypted\<close>: false at the first member that is not encrypted, and after
  the loop \<^verbatim>\<open>len(m.transports) > 0\<close>.
\<close>

fun Multi_IsEncrypted_loop :: "transport list \<Rightarrow> bool \<Rightarrow> bool" where
  "Multi_IsEncrypted_loop [] after = after"
| "Multi_IsEncrypted_loop (t # ts) after =
     (if \<not> IsEncrypted t then False else Multi_IsEncrypted_loop ts after)"

definition Multi_IsEncrypted :: "Multi \<Rightarrow> bool" where
  "Multi_IsEncrypted m = Multi_IsEncrypted_loop (transports m) (length (transports m) > 0)"

definition Multi_transport :: "Multi \<Rightarrow> transport" where
  "Multi_transport m =
     \<lparr> t_Name = (if length (transports m) > 0
                 then ''multi('' @ t_Name (transports m ! 0) @ ''+fallback)'' else ''multi''),
       IsEncrypted = Multi_IsEncrypted m,
       Query = Multi_Query m \<rparr>"

section \<open>Strings\<close>

text \<open>
  A Go string is a sequence of bytes, as \<open>string\<close> is here. \<^verbatim>\<open>strings.ToLower\<close> is
  modelled on ASCII: the letters A to Z are mapped to a to z and every other byte is
  kept. That is the library's result on every string of ASCII bytes. On a string with a
  byte of \<open>0x80\<close> or more the library decodes UTF-8, lowers the letters beyond ASCII as
  well (U+00C9 becomes U+00E9, U+0130 becomes i, U+212A becomes k) and writes U+FFFD for
  invalid UTF-8, where the model keeps the bytes as they are. So \<open>normalizeKey\<close> and
  \<open>decodeHex\<close> below are those of the code on ASCII strings only; \<open>sanitizeLabel\<close>,
  which drops every byte beyond ASCII after lowering, is that of the code on every string
  without the code points U+0130 and U+212A. Every closed theorem below is about ASCII
  strings.
\<close>

definition toLower_char :: "char \<Rightarrow> char" where
  "toLower_char c =
     (if CHR ''A'' \<le> c \<and> c \<le> CHR ''Z'' then char_of (of_char c + (32::nat)) else c)"

definition ToLower :: "string \<Rightarrow> string" where
  "ToLower s = map toLower_char s"

definition HasPrefix :: "string \<Rightarrow> string \<Rightarrow> bool" where
  "HasPrefix s p = (take (length p) s = p)"

definition TrimPrefix :: "string \<Rightarrow> string \<Rightarrow> string" where
  "TrimPrefix s p = (if HasPrefix s p then drop (length p) s else s)"

fun Join :: "string list \<Rightarrow> string \<Rightarrow> string" where
  "Join [] sep = []"
| "Join [x] sep = x"
| "Join (x # y # xs) sep = x @ sep @ Join (y # xs) sep"

text \<open>The conversions \<^verbatim>\<open>[]byte(s)\<close> and \<^verbatim>\<open>string(b)\<close>.\<close>

definition bytes_of :: "string \<Rightarrow> bytes" where
  "bytes_of s = map (\<lambda>c. of_nat (of_char c)) s"

definition string_of :: "bytes \<Rightarrow> string" where
  "string_of b = map (\<lambda>w. char_of (unat w)) b"

section \<open>Responses: \<^verbatim>\<open>Response\<close>, \<^verbatim>\<open>ToError\<close>, \<^verbatim>\<open>Unmarshal\<close>\<close>

text \<open>
  \<open>TTL\<close> is a \<^verbatim>\<open>time.Duration\<close>, a signed count of nanoseconds; \<open>Data\<close> is a byte
  slice that may be nil (\<open>None\<close>).
\<close>

record Response =
  Version :: string
  Status :: string
  Type :: string
  Encoding :: string
  Format :: string
  TTL :: int
  Data :: "bytes option"
  Error :: string
  Chunks :: int
  ChunkID :: int
  Hash :: string

definition Second :: int where
  "Second = 1000000000"

definition IsSuccess :: "Response \<Rightarrow> bool" where
  "IsSuccess r = (Status r = ''ok'' \<or> Status r = ''success'')"

text \<open>
  A Go function either returns or panics. \<^verbatim>\<open>ToError\<close> slices \<^verbatim>\<open>r.Error[:4]\<close>,
  which panics on a string shorter than four bytes.
\<close>

datatype 'a go = Panics string | Returns 'a

definition ToError :: "Response \<Rightarrow> error option go" where
  "ToError r =
     (if IsSuccess r then Returns None
      else if HasPrefix (Status r) ''E0'' then Returns (errorFromCode (Status r) (Error r))
      else if Status r = ''notfound'' then Returns (errorFromCode CodeNotFound (Error r))
      else if Status r = ''unauthorized'' then Returns (errorFromCode CodeUnauthorized (Error r))
      else if Status r = ''forbidden'' then Returns (errorFromCode CodeForbidden (Error r))
      else if Status r = ''ratelimit'' \<or> Status r = ''ratelimited''
        then Returns (errorFromCode CodeRateLimited (Error r))
      else if Status r = ''timeout'' then Returns (errorFromCode CodeTimeout (Error r))
      else if Status r = ''error'' then
        (if Error r \<noteq> [] \<and> HasPrefix (Error r) ''E0'' then
           (if length (Error r) < 4 then Panics ''slice bounds out of range''
            else Returns (errorFromCode (take 4 (Error r))
                   (if length (Error r) > 5 then drop 5 (Error r) else [])))
         else Returns (errorFromCode CodeServerError (Error r)))
      else Returns (Some (ProtocolError CodeServerError (Status r) (Error r))))"

text \<open>
  \<^verbatim>\<open>Unmarshal(v any)\<close>. The target \<open>v\<close> is either a \<^verbatim>\<open>*string\<close> or a pointer to some
  other value; \<^verbatim>\<open>json.Unmarshal\<close> is the library's, given as the function \<open>json\<close>
  from the data and the target to an error (or nil) and the target as it leaves it.
\<close>

datatype 'a target = StringPtr string | Ptr 'a

definition Unmarshal ::
  "(bytes \<Rightarrow> 'a target \<Rightarrow> error option \<times> 'a target) \<Rightarrow> Response \<Rightarrow> 'a target
     \<Rightarrow> error option \<times> 'a target" where
  "Unmarshal json r v =
     (case Data r of
        None \<Rightarrow> (Some ErrNotFound, v)
      | Some d \<Rightarrow>
          if Format r = ''json'' \<or> Format r = [] then
            (case json d v of
               (Some err, v') \<Rightarrow> (Some (Wrapped ''json unmarshal'' err), v')
             | (None, v') \<Rightarrow> (None, v'))
          else if Format r = ''text'' then
            (case v of
               StringPtr s \<Rightarrow> (None, StringPtr (string_of d))
             | Ptr x \<Rightarrow> (Some (OtherError ''cannot unmarshal text into %T''), v))
          else
            (case json d v of
               (None, v') \<Rightarrow> (None, v')
             | (Some err, v') \<Rightarrow> (Some (OtherError (''unsupported format: '' @ Format r)), v')))"

section \<open>The response cache: \<^verbatim>\<open>memoryCache\<close>\<close>

text \<open>
  The map \<^verbatim>\<open>entries\<close> is an association list with one pair for each key, so that
  \<^verbatim>\<open>len(c.entries)\<close> is its length. Instants are nanoseconds on the integer line and
  \<open>expiresAt = now + ttl\<close>; both readings of the clock in one \<^verbatim>\<open>Set\<close> are the same
  instant \<open>now\<close>.
\<close>

record cacheEntry =
  response :: Response
  expiresAt :: int

record memoryCache =
  entries :: "(string \<times> cacheEntry) list"
  maxEntries :: int
  defaultTTL :: int

record CacheConfig =
  Enabled :: bool
  MaxEntries :: int
  DefaultTTL :: int

definition DefaultCacheConfig :: CacheConfig where
  "DefaultCacheConfig = \<lparr> Enabled = True, MaxEntries = 1000, DefaultTTL = 5 * 60 * Second \<rparr>"

definition newMemoryCache :: "CacheConfig \<Rightarrow> memoryCache" where
  "newMemoryCache config =
     \<lparr> entries = [], maxEntries = MaxEntries config, defaultTTL = DefaultTTL config \<rparr>"

definition normalizeKey :: "string \<Rightarrow> string" where
  "normalizeKey key = ToLower key"

definition buildCacheKey :: "string \<Rightarrow> string \<Rightarrow> string \<Rightarrow> string \<Rightarrow> string \<Rightarrow> string" where
  "buildCacheKey operation resource key namespace version =
     normalizeKey (Join [operation, resource, key, namespace, version] ''.'')"

fun delete_key :: "string \<Rightarrow> (string \<times> cacheEntry) list \<Rightarrow> (string \<times> cacheEntry) list" where
  "delete_key k [] = []"
| "delete_key k ((k', e) # es) = (if k' = k then delete_key k es else (k', e) # delete_key k es)"

definition memoryCache_Delete :: "memoryCache \<Rightarrow> string \<Rightarrow> memoryCache" where
  "memoryCache_Delete c key = c\<lparr> entries := delete_key (normalizeKey key) (entries c) \<rparr>"

definition memoryCache_Get :: "memoryCache \<Rightarrow> int \<Rightarrow> string \<Rightarrow> Response option \<times> memoryCache" where
  "memoryCache_Get c now key =
     (case map_of (entries c) (normalizeKey key) of
        None \<Rightarrow> (None, c)
      | Some entry \<Rightarrow>
          if now > expiresAt entry then (None, memoryCache_Delete c key)
          else (Some (response entry), c))"

definition evictExpired :: "memoryCache \<Rightarrow> int \<Rightarrow> memoryCache" where
  "evictExpired c now = c\<lparr> entries := filter (\<lambda>(k, e). \<not> now > expiresAt e) (entries c) \<rparr>"

definition memoryCache_Set :: "memoryCache \<Rightarrow> int \<Rightarrow> string \<Rightarrow> Response \<Rightarrow> int \<Rightarrow> memoryCache" where
  "memoryCache_Set c now key resp ttl0 =
     (let ttl1 = (if ttl0 = 0 then defaultTTL c else ttl0);
          ttl2 = (if TTL resp > 0 \<and> TTL resp < ttl1 then TTL resp else ttl1);
          c1 = (if maxEntries c > 0 \<and> int (length (entries c)) \<ge> maxEntries c
                then evictExpired c now else c)
      in c1\<lparr> entries :=
            (normalizeKey key, \<lparr> response = resp, expiresAt = now + ttl2 \<rparr>)
              # delete_key (normalizeKey key) (entries c1) \<rparr>)"

text \<open>
  The \<^verbatim>\<open>Cache\<close> interface has two implementations: the in-memory cache and
  \<^verbatim>\<open>noopCache\<close>, whose methods do nothing.
\<close>

datatype Cache = MemoryCache memoryCache | NoopCache

fun Cache_Get :: "Cache \<Rightarrow> int \<Rightarrow> string \<Rightarrow> Response option \<times> Cache" where
  "Cache_Get (MemoryCache c) now key =
     (case memoryCache_Get c now key of (r, c') \<Rightarrow> (r, MemoryCache c'))"
| "Cache_Get NoopCache now key = (None, NoopCache)"

fun Cache_Set :: "Cache \<Rightarrow> int \<Rightarrow> string \<Rightarrow> Response \<Rightarrow> int \<Rightarrow> Cache" where
  "Cache_Set (MemoryCache c) now key resp ttl0 = MemoryCache (memoryCache_Set c now key resp ttl0)"
| "Cache_Set NoopCache now key resp ttl0 = NoopCache"

fun Cache_Delete :: "Cache \<Rightarrow> string \<Rightarrow> Cache" where
  "Cache_Delete (MemoryCache c) key = MemoryCache (memoryCache_Delete c key)"
| "Cache_Delete NoopCache key = NoopCache"

section \<open>Label codec: \<^verbatim>\<open>encodeParam\<close>, \<^verbatim>\<open>decodeParam\<close>, \<^verbatim>\<open>sanitizeLabel\<close>\<close>

definition PrefixBase64 :: string where "PrefixBase64 = ''b64-''"
definition PrefixHex :: string where "PrefixHex = ''hex-''"
definition PrefixAuth :: string where "PrefixAuth = ''auth-''"
definition PrefixBDT :: string where "PrefixBDT = ''bdt-''"
definition PrefixCTP :: string where "PrefixCTP = ''ctp-''"
definition PrefixSig :: string where "PrefixSig = ''sig-''"

subsection \<open>The library's hexadecimal codec (encoding/hex)\<close>

definition hextable :: string where
  "hextable = ''0123456789abcdef''"

definition hex_EncodeToString :: "bytes \<Rightarrow> string" where
  "hex_EncodeToString src =
     concat (map (\<lambda>v. [hextable ! (unat v div 16), hextable ! (unat v mod 16)]) src)"

definition fromHexChar :: "char \<Rightarrow> nat option" where
  "fromHexChar c =
     (if CHR ''0'' \<le> c \<and> c \<le> CHR ''9'' then Some (of_char c - of_char CHR ''0'')
      else if CHR ''a'' \<le> c \<and> c \<le> CHR ''f'' then Some (of_char c - of_char CHR ''a'' + 10)
      else if CHR ''A'' \<le> c \<and> c \<le> CHR ''F'' then Some (of_char c - of_char CHR ''A'' + 10)
      else None)"

fun hex_DecodeString :: "string \<Rightarrow> error + bytes" where
  "hex_DecodeString [] = Inr []"
| "hex_DecodeString [p] =
     (case fromHexChar p of
        None \<Rightarrow> Inl (OtherError ''encoding/hex: invalid byte'')
      | Some a \<Rightarrow> Inl (OtherError ''encoding/hex: odd length hex string''))"
| "hex_DecodeString (p # q # rest) =
     (case fromHexChar p of
        None \<Rightarrow> Inl (OtherError ''encoding/hex: invalid byte'')
      | Some a \<Rightarrow>
          (case fromHexChar q of
             None \<Rightarrow> Inl (OtherError ''encoding/hex: invalid byte'')
           | Some b \<Rightarrow>
               (case hex_DecodeString rest of
                  Inl e \<Rightarrow> Inl e
                | Inr bs \<Rightarrow> Inr (of_nat (a * 16 + b) # bs))))"

subsection \<open>The library's base64 codec (encoding/base64), URL alphabet\<close>

text \<open>
  \<^verbatim>\<open>RawURLEncoding\<close> is the codec without padding (\<open>pad = False\<close>),
  \<^verbatim>\<open>URLEncoding\<close> the one with \<open>=\<close> padding. A group of three bytes is the 24-bit
  value \<open>a * 2^16 + b * 2^8 + c\<close>, written as four 6-bit digits; a last group of one or
  two bytes gives two or three digits. Decoding skips carriage returns and line feeds,
  and, not being strict, ignores the unused low bits of a last short group.
\<close>

definition encodeURL :: string where
  "encodeURL = ''ABCDEFGHIJKLMNOPQRSTUVWXYZabcdefghijklmnopqrstuvwxyz0123456789-_''"

definition enc64 :: "nat \<Rightarrow> char" where
  "enc64 i = encodeURL ! i"

fun b64_encode :: "bool \<Rightarrow> bytes \<Rightarrow> string" where
  "b64_encode pad [] = []"
| "b64_encode pad [a] =
     (let val = unat a * 65536
      in [enc64 (val div 262144 mod 64), enc64 (val div 4096 mod 64)]
         @ (if pad then ''=='' else []))"
| "b64_encode pad [a, b] =
     (let val = unat a * 65536 + unat b * 256
      in [enc64 (val div 262144 mod 64), enc64 (val div 4096 mod 64), enc64 (val div 64 mod 64)]
         @ (if pad then ''='' else []))"
| "b64_encode pad (a # b # c # rest) =
     (let val = unat a * 65536 + unat b * 256 + unat c
      in [enc64 (val div 262144 mod 64), enc64 (val div 4096 mod 64), enc64 (val div 64 mod 64),
          enc64 (val mod 64)]
         @ b64_encode pad rest)"

definition decodeMap :: "char \<Rightarrow> nat option" where
  "decodeMap c = map_of (zip encodeURL [0 ..< 64]) c"

definition is_newline :: "char \<Rightarrow> bool" where
  "is_newline c = (c = CHR 0x0A \<or> c = CHR 0x0D)"

definition CorruptInputError :: error where
  "CorruptInputError = OtherError ''illegal base64 data''"

text \<open>
  The bytes of one quantum of \<open>dlen\<close> digits (two to four): the digits are placed in
  a 24-bit value, missing ones as zero, and the first \<open>dlen - 1\<close> of its three bytes
  are the output.
\<close>

definition quantum :: "nat list \<Rightarrow> bytes" where
  "quantum ds =
     (let d = ds @ replicate (4 - length ds) 0;
          val = (d ! 0) * 262144 + (d ! 1) * 4096 + (d ! 2) * 64 + (d ! 3)
      in take (length ds - 1)
           [of_nat (val div 65536 mod 256), of_nat (val div 256 mod 256), of_nat (val mod 256)])"

text \<open>
  What follows a padding character met after \<open>j\<close> digits of a quantum: after two
  digits a second padding character is required; then nothing but line breaks may follow.
\<close>

definition padding_tail :: "nat list \<Rightarrow> string \<Rightarrow> error + bytes" where
  "padding_tail ds cs =
     (if length ds < 2 then Inl CorruptInputError
      else if length ds = 2 then
        (case dropWhile is_newline cs of
           [] \<Rightarrow> Inl CorruptInputError
         | c # cs' \<Rightarrow>
             if c \<noteq> CHR ''='' then Inl CorruptInputError
             else if dropWhile is_newline cs' \<noteq> [] then Inl CorruptInputError
             else Inr (quantum ds))
      else if dropWhile is_newline cs \<noteq> [] then Inl CorruptInputError
      else Inr (quantum ds))"

fun b64_decode_loop :: "bool \<Rightarrow> nat list \<Rightarrow> string \<Rightarrow> error + bytes" where
  "b64_decode_loop pad ds [] =
     (if ds = [] then Inr []
      else if length ds = 1 \<or> pad then Inl CorruptInputError
      else Inr (quantum ds))"
| "b64_decode_loop pad ds (c # cs) =
     (case decodeMap c of
        Some v \<Rightarrow>
          if length ds = 3 then
            (case b64_decode_loop pad [] cs of
               Inl e \<Rightarrow> Inl e
             | Inr bs \<Rightarrow> Inr (quantum (ds @ [v]) @ bs))
          else b64_decode_loop pad (ds @ [v]) cs
      | None \<Rightarrow>
          if is_newline c then b64_decode_loop pad ds cs
          else if \<not> pad \<or> c \<noteq> CHR ''='' then Inl CorruptInputError
          else padding_tail ds cs)"

definition b64_DecodeString :: "bool \<Rightarrow> string \<Rightarrow> error + bytes" where
  "b64_DecodeString pad s = b64_decode_loop pad [] s"

subsection \<open>The codec of the client\<close>

definition encodeBase64 :: "bytes \<Rightarrow> string" where
  "encodeBase64 data = b64_encode False data"

definition decodeBase64 :: "string \<Rightarrow> error + bytes" where
  "decodeBase64 s =
     (case b64_DecodeString False s of
        Inr data \<Rightarrow> Inr data
      | Inl err \<Rightarrow> b64_DecodeString True s)"

definition encodeHex :: "bytes \<Rightarrow> string" where
  "encodeHex data = hex_EncodeToString data"

definition decodeHex :: "string \<Rightarrow> error + bytes" where
  "decodeHex s = hex_DecodeString (ToLower s)"

definition encodeParam :: "bytes \<Rightarrow> string" where
  "encodeParam data =
     (if length data \<le> 16 then PrefixHex @ encodeHex data
      else PrefixBase64 @ encodeBase64 data)"

definition decodeParam :: "string \<Rightarrow> error + bytes" where
  "decodeParam s =
     (if HasPrefix s PrefixBase64 then decodeBase64 (TrimPrefix s PrefixBase64)
      else if HasPrefix s PrefixHex then decodeHex (TrimPrefix s PrefixHex)
      else Inr (bytes_of s))"

text \<open>
  \<^verbatim>\<open>sanitizeLabel\<close>. The loop over the runes of the lowered string writes the rune
  itself, a hyphen, or nothing; every byte of a rune beyond ASCII is written as nothing.
\<close>

definition sanitize_rune :: "char \<Rightarrow> string" where
  "sanitize_rune r =
     (if (CHR ''a'' \<le> r \<and> r \<le> CHR ''z'') \<or> (CHR ''0'' \<le> r \<and> r \<le> CHR ''9'') \<or> r = CHR ''-''
      then [r]
      else if r = CHR ''_'' \<or> r = CHR '' '' then ''-''
      else [])"

definition Trim :: "string \<Rightarrow> string \<Rightarrow> string" where
  "Trim s cutset =
     rev (dropWhile (\<lambda>c. c \<in> set cutset) (rev (dropWhile (\<lambda>c. c \<in> set cutset) s)))"

definition sanitizeLabel :: "string \<Rightarrow> string" where
  "sanitizeLabel s =
     (let s1 = ToLower s;
          result = concat (map sanitize_rune s1);
          label = Trim result ''-''
      in if length label > 63 then take 63 label else label)"

section \<open>The client: options, retry, client.go\<close>

record RetryConfig =
  MaxRetries :: int
  InitialBackoff :: int
  MaxBackoff :: int

record clientConfig =
  apiKey :: string
  namespace :: string
  version :: string
  tld :: string
  retryConfig :: RetryConfig
  cacheConfig :: CacheConfig
  enforceSecurity :: bool

record requestConfig =
  ttl :: int
  forceBlob :: bool
  skipCache :: bool
  encrypt :: bool
  bdtToken :: string
  ctpToken :: string
  nbaToken :: string

type_synonym RequestOption = "requestConfig \<Rightarrow> requestConfig"

definition WithTTL :: "int \<Rightarrow> RequestOption" where
  "WithTTL d c = c\<lparr> ttl := d \<rparr>"

definition WithForceBlob :: "bool \<Rightarrow> RequestOption" where
  "WithForceBlob force c = c\<lparr> forceBlob := force \<rparr>"

definition WithSkipCache :: RequestOption where
  "WithSkipCache c = c\<lparr> skipCache := True \<rparr>"

definition WithEncrypt :: RequestOption where
  "WithEncrypt c = c\<lparr> encrypt := True \<rparr>"

definition WithBDT :: "string \<Rightarrow> RequestOption" where
  "WithBDT token c = c\<lparr> bdtToken := token \<rparr>"

definition WithCTP :: "string \<Rightarrow> RequestOption" where
  "WithCTP token c = c\<lparr> ctpToken := token \<rparr>"

definition WithNBA :: "string \<Rightarrow> RequestOption" where
  "WithNBA signature c = c\<lparr> nbaToken := signature \<rparr>"

text \<open>The zero value \<^verbatim>\<open>&requestConfig{}\<close> and the loop that applies the options.\<close>

definition requestConfig_zero :: requestConfig where
  "requestConfig_zero =
     \<lparr> ttl = 0, forceBlob = False, skipCache = False, encrypt = False,
       bdtToken = [], ctpToken = [], nbaToken = [] \<rparr>"

definition apply_opts :: "RequestOption list \<Rightarrow> requestConfig" where
  "apply_opts opts = fold (\<lambda>opt reqConfig. opt reqConfig) opts requestConfig_zero"

text \<open>
  A client is its configuration and its transport. Its cache is mutable state and
  lives in the \<open>world\<close>, next to the list \<open>wire\<close> of the requests handed to the
  transport so far: a call that leaves the world as it found it has sent nothing and
  has not touched the cache.
\<close>

record Client =
  config :: clientConfig
  transport :: transport

record world =
  cache :: Cache
  wire :: "request list"

text \<open>
  What a call takes from outside the repository: HMAC-SHA-256 (key, then message), the
  two readings of the clock (\<^verbatim>\<open>time.Now().Unix()\<close> in seconds and \<^verbatim>\<open>time.Now()\<close> in
  nanoseconds), \<^verbatim>\<open>json.Marshal\<close> on the caller's data, and for the \<open>k\<close>-th backoff
  wait of a retry loop whether the context ends it (with which error) or the timer does.
  The UQRP parser \<^verbatim>\<open>ParseResponse\<close> is taken as a function as well, from the text of
  a record to a response or an error: nothing below depends on how it parses.
\<close>

record 'd env =
  hmac_sha256 :: "bytes \<Rightarrow> bytes \<Rightarrow> bytes"
  unix_now :: int
  clock :: int
  json_Marshal :: "'d \<Rightarrow> error + bytes"
  ctx_Wait :: "int \<Rightarrow> error option"
  ParseResponse :: "string \<Rightarrow> error + Response"

definition go_bind :: "'a go \<Rightarrow> ('a \<Rightarrow> 'b go) \<Rightarrow> 'b go" where
  "go_bind m f = (case m of Panics p \<Rightarrow> Panics p | Returns x \<Rightarrow> f x)"

text \<open>Decimal printing of an integer, as the verb \<^verbatim>\<open>%d\<close> does.\<close>

function digits :: "int \<Rightarrow> string" where
  "digits n =
     (if n < 10 then [char_of (48 + n)]
      else digits (n div 10) @ [char_of (48 + n mod 10)])"
  by pat_completeness auto
termination
  by (relation "measure (\<lambda>n. nat n)") auto

definition itoa :: "int \<Rightarrow> string" where
  "itoa i = (if i < 0 then ''-'' @ digits (- i) else digits i)"

definition encodeJSON :: "'d env \<Rightarrow> 'd \<Rightarrow> error + string" where
  "encodeJSON env v =
     (case json_Marshal env v of
        Inl err \<Rightarrow> Inl (Wrapped ''json marshal'' err)
      | Inr data \<Rightarrow> Inr (encodeBase64 data))"

text \<open>
  \<^verbatim>\<open>generateAuthToken\<close>: the message \<^verbatim>\<open>operation|resource|key|namespace|timestamp\<close>
  is signed with the API key and the first 16 bytes of the tag are printed in hex.
\<close>

definition generateAuthToken :: "Client \<Rightarrow> 'd env \<Rightarrow> string \<Rightarrow> string \<Rightarrow> string \<Rightarrow> string" where
  "generateAuthToken c env operation resource key =
     (let timestamp = unix_now env;
          message = operation @ ''|'' @ resource @ ''|'' @ key @ ''|'' @ namespace (config c)
                      @ ''|'' @ itoa timestamp;
          signature = hmac_sha256 env (bytes_of (apiKey (config c))) (bytes_of message);
          sig = hex_EncodeToString (take 16 signature)
      in PrefixAuth @ sig @ ''-t-'' @ itoa timestamp)"

text \<open>
  \<^verbatim>\<open>insertAfter\<close> slices \<^verbatim>\<open>slice[:index+1]\<close> and \<^verbatim>\<open>slice[index+1:]\<close>, which panics
  unless \<open>0 \<le> index + 1 \<le> len(slice)\<close>; \<open>sl\<close> is the parameter \<^verbatim>\<open>slice\<close>.
\<close>

definition insertAfter :: "string list \<Rightarrow> int \<Rightarrow> string \<Rightarrow> string list go" where
  "insertAfter sl index val =
     (if index + 1 < 0 \<or> index + 1 > int (length sl)
      then Panics ''slice bounds out of range''
      else Returns (take (nat (index + 1)) sl @ [val] @ drop (nat (index + 1)) sl))"

text \<open>
  \<^verbatim>\<open>buildQueryName\<close>, first the list \<^verbatim>\<open>parts\<close> as it stands before the final
  \<^verbatim>\<open>strings.Join(parts, ".")\<close>, then the name.
\<close>

definition buildQueryName_parts ::
  "Client \<Rightarrow> 'd env \<Rightarrow> string \<Rightarrow> string \<Rightarrow> string \<Rightarrow> requestConfig \<Rightarrow> string list go" where
  "buildQueryName_parts c env operation resource key reqConfig =
     (let parts = [operation];
          parts = (if key \<noteq> [] then parts @ [sanitizeLabel key] else parts);
          parts = parts @ [sanitizeLabel resource];
          parts = (if namespace (config c) \<noteq> []
                   then parts @ [sanitizeLabel (namespace (config c))]
                   else parts @ [''public'']);
          parts = parts @ [version (config c)];
          parts = parts @ [''resolvedb'', tld (config c)];
          parts = (if apiKey (config c) \<noteq> []
                   then [parts ! 0, generateAuthToken c env operation resource key] @ drop 1 parts
                   else parts)
      in go_bind (if bdtToken reqConfig \<noteq> [] then insertAfter parts 0 (bdtToken reqConfig)
                  else Returns parts) (\<lambda>parts.
         go_bind (if ctpToken reqConfig \<noteq> [] then insertAfter parts 0 (ctpToken reqConfig)
                  else Returns parts) (\<lambda>parts.
         (if nbaToken reqConfig \<noteq> [] then insertAfter parts 0 (nbaToken reqConfig)
          else Returns parts))))"

definition buildQueryName ::
  "Client \<Rightarrow> 'd env \<Rightarrow> string \<Rightarrow> string \<Rightarrow> string \<Rightarrow> requestConfig \<Rightarrow> string go" where
  "buildQueryName c env operation resource key reqConfig =
     go_bind (buildQueryName_parts c env operation resource key reqConfig)
       (\<lambda>parts. Returns (Join parts ''.''))"

definition buildQueryNameWithData ::
  "Client \<Rightarrow> 'd env \<Rightarrow> string \<Rightarrow> string \<Rightarrow> string \<Rightarrow> string \<Rightarrow> requestConfig \<Rightarrow> string" where
  "buildQueryNameWithData c env operation resource key data reqConfig =
     (let parts = [operation];
          parts = parts @ [PrefixBase64 @ data];
          parts = parts @ [sanitizeLabel key];
          parts = parts @ [sanitizeLabel resource];
          parts = (if namespace (config c) \<noteq> []
                   then parts @ [sanitizeLabel (namespace (config c))]
                   else parts @ [''public'']);
          parts = parts @ [version (config c)];
          parts = parts @ [''resolvedb'', tld (config c)];
          parts = (if apiKey (config c) \<noteq> []
                   then [parts ! 0, generateAuthToken c env operation resource key] @ drop 1 parts
                   else parts)
      in Join parts ''.'')"

text \<open>\<^verbatim>\<open>strings.Split(s, ".")\<close>: the pieces between the separators, at least one.\<close>

fun Split :: "string \<Rightarrow> char \<Rightarrow> string list" where
  "Split [] sep = [[]]"
| "Split (x # xs) sep =
     (if x = sep then [] # Split xs sep
      else (case Split xs sep of y # ys \<Rightarrow> (x # y) # ys | [] \<Rightarrow> [[x]]))"

definition TypeTXT :: "16 word" where
  "TypeTXT = 16"

text \<open>
  \<^verbatim>\<open>executeQuery\<close> hands the request to the transport (recorded on the wire), parses the
  answer and takes the TTL of the DNS answer when the response has none. A transport
  that returns a nil response with a nil error makes it dereference nil.
\<close>

definition executeQuery ::
  "Client \<Rightarrow> 'd env \<Rightarrow> string \<Rightarrow> requestConfig \<Rightarrow> world \<Rightarrow> (error + Response) go \<times> world" where
  "executeQuery c env queryName reqConfig w =
     (let req = \<lparr> q_Name = queryName, q_Type = TypeTXT, q_Labels = Split queryName CHR ''.'' \<rparr>;
          w' = w\<lparr> wire := wire w @ [req] \<rparr>
      in case Query (transport c) req of
           (transportResp, Some err) \<Rightarrow> (Returns (Inl (Wrapped ''transport query'' err)), w')
         | (None, None) \<Rightarrow> (Panics ''nil pointer dereference'', w')
         | (Some transportResp, None) \<Rightarrow>
             (case ParseResponse env (string_of (t_Data transportResp)) of
                Inl err \<Rightarrow> (Returns (Inl (Wrapped ''parse response'' err)), w')
              | Inr resp \<Rightarrow>
                  (Returns (Inr (if TTL resp = 0 \<and> t_TTL transportResp > 0
                                 then resp\<lparr> TTL := int (unat (t_TTL transportResp)) * Second \<rparr>
                                 else resp)), w')))"

text \<open>
  \<^verbatim>\<open>doWithRetry\<close>. \<open>attempt\<close> is the counter of the retryer, which \<^verbatim>\<open>Wait\<close>
  increments before it sleeps; the length of the sleep has no part in the result.
\<close>

definition ShouldRetry :: "RetryConfig \<Rightarrow> int \<Rightarrow> error \<Rightarrow> bool" where
  "ShouldRetry cfg attempt err = (if attempt \<ge> MaxRetries cfg then False else IsRetryable err)"

function doWithRetry_loop ::
  "RetryConfig \<Rightarrow> (int \<Rightarrow> error option) \<Rightarrow> (world \<Rightarrow> (error + Response) go \<times> world)
     \<Rightarrow> int \<Rightarrow> world \<Rightarrow> (error + Response) go \<times> world" where
  "doWithRetry_loop cfg wait fn attempt w =
     (case fn w of
        (Panics p, w') \<Rightarrow> (Panics p, w')
      | (Returns (Inr result), w') \<Rightarrow> (Returns (Inr result), w')
      | (Returns (Inl err), w') \<Rightarrow>
          if \<not> ShouldRetry cfg attempt err then (Returns (Inl err), w')
          else (case wait (attempt + 1) of
                  Some waitErr \<Rightarrow> (Returns (Inl waitErr), w')
                | None \<Rightarrow> doWithRetry_loop cfg wait fn (attempt + 1) w'))"
  by pat_completeness auto
termination
  by (relation "measure (\<lambda>(cfg, wait, fn, attempt, w). nat (MaxRetries cfg - attempt))")
    (auto simp: ShouldRetry_def split: if_splits)

definition doWithRetry ::
  "'d env \<Rightarrow> RetryConfig \<Rightarrow> (world \<Rightarrow> (error + Response) go \<times> world) \<Rightarrow> world
     \<Rightarrow> (error + Response) go \<times> world" where
  "doWithRetry env cfg fn w = doWithRetry_loop cfg (ctx_Wait env) fn 0 w"

text \<open>
  \<^verbatim>\<open>Client.Set\<close>. The result is the error returned (\<open>None\<close> for nil), or a panic,
  and the world after the call.
\<close>

definition Client_Set ::
  "Client \<Rightarrow> 'd env \<Rightarrow> string \<Rightarrow> string \<Rightarrow> 'd \<Rightarrow> RequestOption list \<Rightarrow> world
     \<Rightarrow> error option go \<times> world" where
  "Client_Set c env resource key data opts w =
     (if apiKey (config c) = [] then (Returns (Some ErrUnauthorized), w)
      else
        let reqConfig = apply_opts opts in
        if enforceSecurity (config c) \<and> \<not> IsEncrypted (transport c)
        then (Returns (Some ErrEncryptedTransportRequired), w)
        else
          (case encodeJSON env data of
             Inl err \<Rightarrow> (Returns (Some (Wrapped ''encode data'' err)), w)
           | Inr encoded \<Rightarrow>
               let queryName = buildQueryNameWithData c env ''put'' resource key encoded reqConfig
               in (case doWithRetry env (retryConfig (config c))
                          (executeQuery c env queryName reqConfig) w of
                     (Panics p, w') \<Rightarrow> (Panics p, w')
                   | (Returns (Inl err), w') \<Rightarrow> (Returns (Some err), w')
                   | (Returns (Inr resp), w') \<Rightarrow>
                       (case ToError resp of
                          Panics p \<Rightarrow> (Panics p, w')
                        | Returns (Some err) \<Rightarrow> (Returns (Some err), w')
                        | Returns None \<Rightarrow>
                            (Returns None,
                             w'\<lparr> cache := Cache_Delete (cache w')
                                   (buildCacheKey ''get'' resource key (namespace (config c))
                                      (version (config c))) \<rparr>)))))"

text \<open>
  \<^verbatim>\<open>Client.GetRaw\<close>: the cache is consulted first, and a successful response is
  stored with its own TTL as the \<^verbatim>\<open>ttl\<close> argument of \<^verbatim>\<open>Set\<close>.
\<close>

definition GetRaw_query ::
  "Client \<Rightarrow> 'd env \<Rightarrow> string \<Rightarrow> string \<Rightarrow> requestConfig \<Rightarrow> world
     \<Rightarrow> (error + Response) go \<times> world" where
  "GetRaw_query c env queryName cacheKey reqConfig w =
     (case doWithRetry env (retryConfig (config c)) (executeQuery c env queryName reqConfig) w of
        (Panics p, w') \<Rightarrow> (Panics p, w')
      | (Returns (Inl err), w') \<Rightarrow> (Returns (Inl err), w')
      | (Returns (Inr resp), w') \<Rightarrow>
          (Returns (Inr resp),
           if IsSuccess resp \<and> \<not> skipCache reqConfig
           then w'\<lparr> cache := Cache_Set (cache w') (clock env) cacheKey resp (TTL resp) \<rparr>
           else w'))"

definition GetRaw ::
  "Client \<Rightarrow> 'd env \<Rightarrow> string \<Rightarrow> string \<Rightarrow> RequestOption list \<Rightarrow> world
     \<Rightarrow> (error + Response) go \<times> world" where
  "GetRaw c env resource key opts w =
     (let reqConfig = apply_opts opts
      in case buildQueryName c env ''get'' resource key reqConfig of
           Panics p \<Rightarrow> (Panics p, w)
         | Returns queryName \<Rightarrow>
             let cacheKey = buildCacheKey ''get'' resource key (namespace (config c))
                              (version (config c))
             in if \<not> skipCache reqConfig then
                  (case Cache_Get (cache w) (clock env) cacheKey of
                     (Some cached, cache') \<Rightarrow> (Returns (Inr cached), w\<lparr> cache := cache' \<rparr>)
                   | (None, cache') \<Rightarrow>
                       GetRaw_query c env queryName cacheKey reqConfig (w\<lparr> cache := cache' \<rparr>))
                else GetRaw_query c env queryName cacheKey reqConfig w)"

text \<open>
  \<^verbatim>\<open>Client.Get\<close>: \<^verbatim>\<open>GetRaw\<close>, whose error is returned as it is, and then
  \<^verbatim>\<open>Unmarshal\<close> of the response into the target \<open>dst\<close>. Nothing between the two
  looks at the status of the response.
\<close>

definition Client_Get ::
  "Client \<Rightarrow> 'd env \<Rightarrow> (bytes \<Rightarrow> 'a target \<Rightarrow> error option \<times> 'a target) \<Rightarrow> string \<Rightarrow> string
     \<Rightarrow> 'a target \<Rightarrow> RequestOption list \<Rightarrow> world \<Rightarrow> error option go \<times> 'a target \<times> world" where
  "Client_Get c env json resource key dst opts w =
     (case GetRaw c env resource key opts w of
        (Panics p, w') \<Rightarrow> (Panics p, dst, w')
      | (Returns (Inl err), w') \<Rightarrow> (Returns (Some err), dst, w')
      | (Returns (Inr resp), w') \<Rightarrow>
          (case Unmarshal json resp dst of (err, dst') \<Rightarrow> (Returns err, dst', w')))"

section \<open>The DNS wire format reader: \<^verbatim>\<open>parseDNSResponse\<close>\<close>

text \<open>
  Offsets are positions in the message. Skipping a name walks over its labels: a zero
  octet ends it, an octet of \<open>0xC0\<close> or more is a two-octet pointer that ends it, any
  other octet is the length of a label to step over. The same loop skips the name of a
  question and the name of an answer.
\<close>

function skipName :: "bytes \<Rightarrow> nat \<Rightarrow> nat" where
  "skipName data offset =
     (if offset < length data then
        (let len = unat (data ! offset)
         in if len = 0 then offset + 1
            else if len \<ge> 0xC0 then offset + 2
            else skipName data (offset + 1 + len))
      else offset)"
  by pat_completeness auto
termination
  by (relation "measure (\<lambda>(data, offset). length data - offset)") auto

fun skipQuestions :: "bytes \<Rightarrow> nat \<Rightarrow> nat \<Rightarrow> nat" where
  "skipQuestions data 0 offset = offset"
| "skipQuestions data (Suc n) offset = skipQuestions data n (skipName data offset + 4)"

text \<open>
  A TXT record's data is a sequence of fragments, each a length octet and that many
  bytes; the fragments that fit are concatenated.
\<close>

function stripTXT :: "bytes \<Rightarrow> nat \<Rightarrow> bytes \<Rightarrow> bytes" where
  "stripTXT rdata pos txtData =
     (if pos < length rdata then
        (let len = unat (rdata ! pos);
             pos1 = pos + 1;
             txtData1 = (if pos1 + len \<le> length rdata
                         then txtData @ take len (drop pos1 rdata) else txtData)
         in stripTXT rdata (pos1 + len) txtData1)
      else txtData)"
  by pat_completeness auto
termination
  by (relation "measure (\<lambda>(rdata, pos, txtData). length rdata - pos)") auto

definition be16 :: "bytes \<Rightarrow> nat \<Rightarrow> 16 word" where
  "be16 data offset = push_bit 8 (ucast (data ! offset)) OR ucast (data ! (offset + 1))"

definition be16_int :: "bytes \<Rightarrow> nat \<Rightarrow> nat" where
  "be16_int data offset = push_bit 8 (unat (data ! offset)) OR unat (data ! (offset + 1))"

definition be32 :: "bytes \<Rightarrow> nat \<Rightarrow> 32 word" where
  "be32 data offset =
     push_bit 24 (ucast (data ! offset)) OR push_bit 16 (ucast (data ! (offset + 1)))
       OR push_bit 8 (ucast (data ! (offset + 2))) OR ucast (data ! (offset + 3))"

text \<open>
  One answer record as the loop reads it at \<open>offset\<close>: \<open>None\<close> where the loop
  breaks (the fixed fields or the data do not fit), otherwise the type, the TTL, the
  record data as appended to \<^verbatim>\<open>resp.Records\<close>, and the offset after the record. All
  reads are inside the message: the loop checks \<open>offset+10\<close> and \<open>offset+rdlen\<close>
  against its length first.
\<close>

record answer =
  a_type :: "16 word"
  a_ttl :: "32 word"
  a_rdata :: bytes
  a_next :: nat

definition readAnswer :: "bytes \<Rightarrow> nat \<Rightarrow> answer option" where
  "readAnswer data offset0 =
     (let offset = skipName data offset0
      in if offset + 10 > length data then None
         else
           let rtype = be16 data offset;
               offset = offset + 2;
               offset = offset + 2;
               ttl = be32 data offset;
               offset = offset + 4;
               rdlen = be16_int data offset;
               offset = offset + 2
           in if offset + rdlen > length data then None
              else
                let rdata = take rdlen (drop offset data);
                    rdata = (if rtype = TypeTXT \<and> length rdata > 0
                             then stripTXT rdata 0 [] else rdata)
                in Some \<lparr> a_type = rtype, a_ttl = ttl, a_rdata = rdata,
                          a_next = offset + rdlen \<rparr>)"

text \<open>
  The answer loop \<^verbatim>\<open>for i := 0; i < ancount && offset < len(data); i++\<close>, with the
  response it builds: every record read is appended to \<^verbatim>\<open>Records\<close>, and its TTL is
  taken when the TTL of the response is still zero.
\<close>

fun parseAnswers :: "bytes \<Rightarrow> nat \<Rightarrow> nat \<Rightarrow> transport_response \<Rightarrow> transport_response" where
  "parseAnswers data 0 offset resp = resp"
| "parseAnswers data (Suc n) offset resp =
     (if \<not> offset < length data then resp
      else
        (case readAnswer data offset of
           None \<Rightarrow> resp
         | Some a \<Rightarrow>
             parseAnswers data n (a_next a)
               (resp\<lparr> t_Records := t_Records resp @ [a_rdata a],
                      t_TTL := (if t_TTL resp = 0 then a_ttl a else t_TTL resp) \<rparr>)))"

definition parseDNSResponse :: "bytes \<Rightarrow> error + transport_response" where
  "parseDNSResponse data =
     (if length data < 12 then Inl (OtherError ''response too short'')
      else
        let qdcount = be16_int data 4;
            offset = skipQuestions data qdcount 12;
            ancount = be16_int data 6;
            resp = parseAnswers data ancount offset \<lparr> t_Data = [], t_TTL = 0, t_Records = [] \<rparr>
        in Inr (resp\<lparr> t_Data := concat (t_Records resp) \<rparr>))"

text \<open>
  The answer records of a message in the order the loop reads them, for stating what
  the parser returns: the same traversal, collecting the records instead of the response.
\<close>

fun answerRecords :: "bytes \<Rightarrow> nat \<Rightarrow> nat \<Rightarrow> answer list" where
  "answerRecords data 0 offset = []"
| "answerRecords data (Suc n) offset =
     (if \<not> offset < length data then []
      else
        (case readAnswer data offset of
           None \<Rightarrow> []
         | Some a \<Rightarrow> a # answerRecords data n (a_next a)))"

definition answers :: "bytes \<Rightarrow> answer list" where
  "answers data = answerRecords data (be16_int data 6) (skipQuestions data (be16_int data 4) 12)"

text \<open>The first TTL of a list that is not zero, and zero when there is none.\<close>

fun first_nonzero :: "32 word list \<Rightarrow> 32 word" where
  "first_nonzero [] = 0"
| "first_nonzero (t # ts) = (if t \<noteq> 0 then t else first_nonzero ts)"

text \<open>
  The specification's words: the smallest TTL of a list that is not zero (zero when
  there is none).
\<close>

definition smallest_nonzero :: "32 word list \<Rightarrow> 32 word" where
  "smallest_nonzero ts =
     (case filter (\<lambda>t. t \<noteq> 0) ts of [] \<Rightarrow> 0 | t # ts' \<Rightarrow> fold min ts' t)"

section \<open>The encryption context: \<^verbatim>\<open>EncryptionContext\<close> of package security\<close>

text \<open>
  The context owns the key and the 64-bit counter. AES-GCM is the library's and is
  given as the function \<open>seal\<close> from key, nonce and plaintext to ciphertext and tag
  (with a key of 32 bytes neither \<^verbatim>\<open>aes.NewCipher\<close> nor \<^verbatim>\<open>cipher.NewGCM\<close> fails).
  Each call takes what \<^verbatim>\<open>rand.Read\<close> gives for the last four nonce bytes: an error, or
  four bytes (a 32-bit value, most significant byte first).
\<close>

record EncryptionContext =
  e_key :: bytes
  e_counter :: "64 word"

definition NewEncryptionContext :: "bytes \<Rightarrow> error + EncryptionContext" where
  "NewEncryptionContext k =
     (if length k \<noteq> 32 then Inl (OtherError ''key must be 32 bytes'')
      else Inr \<lparr> e_key = k, e_counter = 0 \<rparr>)"

definition counter_bytes :: "64 word \<Rightarrow> bytes" where
  "counter_bytes counter =
     [ucast (drop_bit 56 counter), ucast (drop_bit 48 counter), ucast (drop_bit 40 counter),
      ucast (drop_bit 32 counter), ucast (drop_bit 24 counter), ucast (drop_bit 16 counter),
      ucast (drop_bit 8 counter), ucast counter]"

definition random_bytes :: "32 word \<Rightarrow> bytes" where
  "random_bytes r =
     [ucast (drop_bit 24 r), ucast (drop_bit 16 r), ucast (drop_bit 8 r), ucast r]"

text \<open>
  \<^verbatim>\<open>generateNonce\<close>: \<^verbatim>\<open>e.counter.Add(1)\<close> stores the incremented counter and returns
  it; the increment wraps around at \<open>2^64\<close>.
\<close>

definition generateNonce ::
  "EncryptionContext \<Rightarrow> error + 32 word \<Rightarrow> (error + bytes) \<times> EncryptionContext" where
  "generateNonce e rnd =
     (let counter = e_counter e + 1;
          e' = e\<lparr> e_counter := counter \<rparr>
      in if counter = 0 then (Inl ErrNonceExhausted, e')
         else (case rnd of
                 Inl err \<Rightarrow> (Inl (Wrapped ''generate random'' err), e')
               | Inr r \<Rightarrow> (Inr (counter_bytes counter @ random_bytes r), e')))"

definition Encrypt ::
  "(bytes \<Rightarrow> bytes \<Rightarrow> bytes \<Rightarrow> bytes) \<Rightarrow> EncryptionContext \<Rightarrow> bytes \<Rightarrow> error + 32 word
     \<Rightarrow> (error + bytes) \<times> EncryptionContext" where
  "Encrypt seal e plaintext rnd =
     (case generateNonce e rnd of
        (Inl err, e') \<Rightarrow> (Inl err, e')
      | (Inr nonce, e') \<Rightarrow> (Inr (nonce @ seal (e_key e) nonce plaintext), e'))"

text \<open>
  A run of calls to \<^verbatim>\<open>Encrypt\<close> on one context, each with its plaintext and its
  random bytes, and the results in order. (Calls from several goroutines are ordered by
  their atomic increments.)
\<close>

fun Encrypt_calls ::
  "(bytes \<Rightarrow> bytes \<Rightarrow> bytes \<Rightarrow> bytes) \<Rightarrow> EncryptionContext \<Rightarrow> (bytes \<times> (error + 32 word)) list
     \<Rightarrow> (error + bytes) list" where
  "Encrypt_calls seal e [] = []"
| "Encrypt_calls seal e ((plaintext, rnd) # calls) =
     (case Encrypt seal e plaintext rnd of (res, e') \<Rightarrow> res # Encrypt_calls seal e' calls)"

text \<open>The nonce of a result: the first twelve bytes of a ciphertext.\<close>

definition nonce_of :: "error + bytes \<Rightarrow> bytes option" where
  "nonce_of res = (case res of Inl err \<Rightarrow> None | Inr out \<Rightarrow> Some (take 12 out))"

section \<open>Example data\<close>

text \<open>
  Concrete inputs on which the theorems below are run: a request, three member
  transports (a plain DNS transport whose query times out, a DoT transport that is
  refused, a DoH transport that answers), responses, a cache under the default
  configuration, and a client with its surroundings.
\<close>

definition example_request :: request where
  "example_request =
     \<lparr> q_Name = ''get.quebec.weather.public.v1.resolvedb.net'', q_Type = 16,
       q_Labels = [''get'', ''quebec'', ''weather'', ''public'', ''v1'', ''resolvedb'', ''net''] \<rparr>"

definition example_answer :: transport_response where
  "example_answer = \<lparr> t_Data = [118, 61, 49], t_TTL = 300, t_Records = [[118, 61, 49]] \<rparr>"

definition example_dot :: transport where
  "example_dot =
     \<lparr> t_Name = ''dot'', IsEncrypted = True,
       Query = (\<lambda>req. (None, Some (OtherError ''connection refused''))) \<rparr>"

definition example_dns :: transport where
  "example_dns =
     \<lparr> t_Name = ''dns'', IsEncrypted = False,
       Query = (\<lambda>req. (None, Some (OtherError ''i/o timeout''))) \<rparr>"

definition example_doh :: transport where
  "example_doh =
     \<lparr> t_Name = ''doh'', IsEncrypted = True, Query = (\<lambda>req. (Some example_answer, None)) \<rparr>"

definition example_unauthorized :: Response where
  "example_unauthorized =
     \<lparr> Version = ''rdb1'', Status = ''unauthorized'', Type = [], Encoding = [],
       Format = [], TTL = 0, Data = None, Error = ''bad token'', Chunks = 0, ChunkID = 0,
       Hash = [] \<rparr>"


definition example_cache :: memoryCache where
  "example_cache = newMemoryCache DefaultCacheConfig"

definition example_env :: "unit env" where
  "example_env =
     \<lparr> hmac_sha256 = (\<lambda>k m. replicate 32 0xAB), unix_now = 1700000000, clock = 0,
       json_Marshal = (\<lambda>d. Inr [123, 125]), ctx_Wait = (\<lambda>k. None),
       ParseResponse = (\<lambda>s. Inl ErrInvalidResponse) \<rparr>"

definition example_config :: "string \<Rightarrow> clientConfig" where
  "example_config k =
     \<lparr> apiKey = k, namespace = ''myapp'', version = ''v1'', tld = ''net'',
       retryConfig = \<lparr> MaxRetries = 3, InitialBackoff = 100000000, MaxBackoff = 10 * Second \<rparr>,
       cacheConfig = DefaultCacheConfig, enforceSecurity = True \<rparr>"

definition example_client :: "string \<Rightarrow> transport \<Rightarrow> Client" where
  "example_client k t = \<lparr> config = example_config k, transport = t \<rparr>"

definition example_tokens :: requestConfig where
  "example_tokens = apply_opts [WithNBA ''sig-aa-t-1'', WithCTP ''ctp-bb'', WithBDT ''bdt-cc'']"

definition example_world :: world where
  "example_world = \<lparr> cache = MemoryCache example_cache, wire = [] \<rparr>"

definition example_refusal :: string where
  "example_refusal = ''v=rdb1;s=unauthorized;err=bad token''"

definition example_doh_refusing :: transport where
  "example_doh_refusing =
     \<lparr> t_Name = ''doh'', IsEncrypted = True,
       Query = (\<lambda>req. (Some \<lparr> t_Data = bytes_of example_refusal, t_TTL = 0,
                                 t_Records = [bytes_of example_refusal] \<rparr>, None)) \<rparr>"

definition example_env_refusal :: "unit env" where
  "example_env_refusal =
     \<lparr> hmac_sha256 = (\<lambda>k m. replicate 32 0xAB), unix_now = 1700000000, clock = 0,
       json_Marshal = (\<lambda>d. Inr [123, 125]), ctx_Wait = (\<lambda>k. None),
       ParseResponse = (\<lambda>s. if s = example_refusal then Inr example_unauthorized
                            else Inl ErrInvalidResponse) \<rparr>"

definition example_message :: bytes where
  "example_message =
     [0x12, 0x34, 0x81, 0x80, 0x00, 0x01, 0x00, 0x02, 0x00, 0x00, 0x00, 0x00,
      0x01, 0x61, 0x00, 0x00, 0x10, 0x00, 0x01,
      0xC0, 0x0C, 0x00, 0x10, 0x00, 0x01, 0x00, 0x00, 0x01, 0x2C, 0x00, 0x03, 0x02, 0x68, 0x69,
      0xC0, 0x0C, 0x00, 0x10, 0x00, 0x01, 0x00, 0x00, 0x00, 0x3C, 0x00, 0x03, 0x02, 0x68, 0x6F]"

section \<open>Properties of the multi-transport\<close>

lemmas Code_defs =
  CodeSuccess_def CodeBadRequest_def CodeUnauthorized_def CodeForbidden_def CodeNotFound_def
  CodeConflict_def CodePayloadTooLarge_def CodeInvalidFormat_def CodeVersionMismatch_def
  CodeNamespaceError_def CodeServerError_def CodeUnavailable_def CodeTimeout_def
  CodeRateLimited_def CodeEncryptionRequired_def


lemma Multi_Query_loop_all_fail:
  "\<forall>t \<in> set ts. snd (Query t req) \<noteq> None \<Longrightarrow>
   Multi_Query_loop ts req e =
     (None, if ts = [] then e else snd (Query (last ts) req))"
proof (induction ts arbitrary: e)
  case Nil
  then show ?case by simp
next
  case (Cons t ts)
  obtain r err where q: "Query t req = (r, Some err)"
    using Cons.prems by (cases "Query t req") auto
  have "Multi_Query_loop (t # ts) req e = Multi_Query_loop ts req (Some err)"
    by (simp add: q)
  also have "\<dots> = (None, if ts = [] then Some err else snd (Query (last ts) req))"
    using Cons.IH [of "Some err"] Cons.prems by simp
  finally show ?case by (simp add: q)
qed

lemma Multi_Query_loop_first_success:
  "i < length ts \<Longrightarrow> snd (Query (ts ! i) req) = None \<Longrightarrow>
   \<forall>j < i. snd (Query (ts ! j) req) \<noteq> None \<Longrightarrow>
   Multi_Query_loop ts req e = (fst (Query (ts ! i) req), None)"
proof (induction ts arbitrary: i e)
  case Nil
  then show ?case by simp
next
  case (Cons t ts)
  show ?case
  proof (cases i)
    case 0
    with Cons.prems show ?thesis
      by (cases "Query t req") auto
  next
    case (Suc k)
    have "snd (Query t req) \<noteq> None"
      using Cons.prems(3) Suc by (auto dest: spec [of _ 0])
    then obtain r err where q: "Query t req = (r, Some err)"
      by (cases "Query t req") auto
    have later: "\<forall>j < k. snd (Query (ts ! j) req) \<noteq> None"
      using Cons.prems(3) Suc by (auto dest: spec [of _ "Suc j" for j])
    have "Multi_Query_loop ts req (Some err) = (fst (Query (ts ! k) req), None)"
      using Cons.IH [of k "Some err"] Cons.prems Suc later by simp
    then show ?thesis by (simp add: q Suc)
  qed
qed

lemma Multi_IsEncrypted_loop_eq:
  "Multi_IsEncrypted_loop ts b = (b \<and> (\<forall>t \<in> set ts. IsEncrypted t))"
  by (induction ts) auto

text \<open>
  Claim C10. A multi-transport built from the empty list of members answers every
  request with a nil response and a nil error: the caller gets neither a response
  nor a failure.
\<close>

theorem Multi_Query_empty:
  "Multi_Query (NewMulti []) req = (None, None)"
  by (simp add: Multi_Query_def NewMulti_def)

text \<open>
  Claim C8, as the code has it. For a multi-transport over the members \<open>ts\<close> and any
  request: \<^verbatim>\<open>Query\<close> returns the response of the first member whose error is nil;
  when the list is not empty and every member fails, it fails with the error of the
  last member; and \<^verbatim>\<open>IsEncrypted\<close> is true exactly when the list is not empty and
  every member reports encrypted. (Over the empty list \<^verbatim>\<open>IsEncrypted\<close> is false and
  \<^verbatim>\<open>Query\<close> returns no error.)
\<close>

theorem Multi_fallback:
  "(\<forall>i < length ts.
      snd (Query (ts ! i) req) = None \<and> (\<forall>j < i. snd (Query (ts ! j) req) \<noteq> None) \<longrightarrow>
      Multi_Query (NewMulti ts) req = (fst (Query (ts ! i) req), None))
   \<and> (ts \<noteq> [] \<and> (\<forall>t \<in> set ts. snd (Query t req) \<noteq> None) \<longrightarrow>
        Multi_Query (NewMulti ts) req = (None, snd (Query (last ts) req)))
   \<and> (Multi_IsEncrypted (NewMulti ts) \<longleftrightarrow> ts \<noteq> [] \<and> (\<forall>t \<in> set ts. IsEncrypted t))"
proof (intro conjI allI impI)
  fix i
  assume "i < length ts"
    and "snd (Query (ts ! i) req) = None \<and> (\<forall>j < i. snd (Query (ts ! j) req) \<noteq> None)"
  then show "Multi_Query (NewMulti ts) req = (fst (Query (ts ! i) req), None)"
    by (simp add: Multi_Query_def NewMulti_def Multi_Query_loop_first_success)
next
  assume "ts \<noteq> [] \<and> (\<forall>t \<in> set ts. snd (Query t req) \<noteq> None)"
  then show "Multi_Query (NewMulti ts) req = (None, snd (Query (last ts) req))"
    by (simp add: Multi_Query_def NewMulti_def Multi_Query_loop_all_fail)
next
  show "Multi_IsEncrypted (NewMulti ts) \<longleftrightarrow> ts \<noteq> [] \<and> (\<forall>t \<in> set ts. IsEncrypted t)"
    by (simp add: Multi_IsEncrypted_def NewMulti_def Multi_IsEncrypted_loop_eq)
qed

theorem Multi_fallback_witness:
  "Multi_Query (NewMulti [example_dns, example_dot, example_doh]) example_request
     = (Some example_answer, None)
   \<and> Multi_Query (NewMulti [example_dns, example_dot]) example_request
     = (None, Some (OtherError ''connection refused''))
   \<and> Multi_IsEncrypted (NewMulti [example_dot, example_doh])
   \<and> \<not> Multi_IsEncrypted (NewMulti [example_dns, example_doh])"
proof -
  let ?ts = "[example_dns, example_dot, example_doh]"
  have first: "2 < length ?ts" by simp
  have ok: "snd (Query (?ts ! 2) example_request) = None
      \<and> (\<forall>j < 2. snd (Query (?ts ! j) example_request) \<noteq> None)"
    by (simp add: example_doh_def example_dns_def example_dot_def less_Suc_eq numeral_2_eq_2)
  have a: "Multi_Query (NewMulti ?ts) example_request = (Some example_answer, None)"
    using Multi_fallback [of ?ts example_request, THEN conjunct1, rule_format, OF first ok]
    by (simp add: example_doh_def)
  have fail: "[example_dns, example_dot] \<noteq> []
      \<and> (\<forall>t \<in> set [example_dns, example_dot]. snd (Query t example_request) \<noteq> None)"
    by (simp add: example_dns_def example_dot_def)
  have b: "Multi_Query (NewMulti [example_dns, example_dot]) example_request
      = (None, Some (OtherError ''connection refused''))"
    using Multi_fallback [of "[example_dns, example_dot]" example_request,
        THEN conjunct2, THEN conjunct1, rule_format, OF fail]
    by (simp add: example_dot_def)
  have c: "Multi_IsEncrypted (NewMulti [example_dot, example_doh])"
    using Multi_fallback [of "[example_dot, example_doh]" example_request]
    by (simp add: example_dot_def example_doh_def)
  have d: "\<not> Multi_IsEncrypted (NewMulti [example_dns, example_doh])"
    using Multi_fallback [of "[example_dns, example_doh]" example_request]
    by (simp add: example_dns_def example_doh_def)
  from a b c d show ?thesis by simp
qed

text \<open>
  The claim as the specification words it fails on the empty list of members: every
  member (there is none) reports encrypted and every member fails, yet
  \<^verbatim>\<open>IsEncrypted\<close> is false and \<^verbatim>\<open>Query\<close> reports no error.
\<close>

theorem Multi_empty_counterexample:
  "list_all IsEncrypted (transports (NewMulti []))
   \<and> \<not> Multi_IsEncrypted (NewMulti [])
   \<and> list_all (\<lambda>t. snd (Query t example_request) \<noteq> None) (transports (NewMulti []))
   \<and> snd (Multi_Query (NewMulti []) example_request) = None"
  by (simp add: NewMulti_def Multi_IsEncrypted_def Multi_Query_def)

section \<open>Properties of responses\<close>

text \<open>
  What \<^verbatim>\<open>Unmarshal\<close> does with a response whose data is nil: it returns the
  not-found error and leaves the target alone, without a look at the status.
\<close>

lemma Unmarshal_nil_returns_not_found:
  "Data r = None \<Longrightarrow> Unmarshal json r v = (Some ErrNotFound, v)"
  by (simp add: Unmarshal_def)

text \<open>
  Claim C2 at the response \<open>v=rdb1;s=unauthorized;err=bad token\<close>, which has no
  data. Its status is not a success status and the error derived from the status is the
  unauthorized error E002, which is what the claim has \<^verbatim>\<open>Unmarshal\<close> return;
  \<^verbatim>\<open>Unmarshal\<close> returns the not-found error E004. A \<^verbatim>\<open>Get\<close> that receives this
  response from the transport therefore reports not-found to its caller, where the
  package documentation has the caller test the error of \<^verbatim>\<open>Get\<close> for the
  unauthorized and rate-limited errors.
\<close>

theorem Unmarshal_loses_status_error:
  "\<not> IsSuccess example_unauthorized
   \<and> ToError example_unauthorized
       = Returns (Some (ProtocolError ''E002'' ''authentication required'' ''bad token''))
   \<and> fst (Unmarshal (\<lambda>d v. (None, v)) example_unauthorized (StringPtr ''old'' :: unit target))
       = Some (ProtocolError ''E004'' ''resource not found'' [])
   \<and> fst (Client_Get (example_client [] example_doh_refusing) example_env_refusal
            (\<lambda>d v. (None, v)) ''data'' ''key'' (StringPtr ''old'' :: unit target) []
            example_world)
       = Returns (Some (ProtocolError ''E004'' ''resource not found'' []))"
proof -
  have a: "\<not> IsSuccess example_unauthorized
      \<and> ToError example_unauthorized
          = Returns (Some (ProtocolError ''E002'' ''authentication required'' ''bad token''))
      \<and> fst (Unmarshal (\<lambda>d v. (None, v)) example_unauthorized (StringPtr ''old'' :: unit target))
          = Some (ProtocolError ''E004'' ''resource not found'' [])"
    by (simp add: example_unauthorized_def IsSuccess_def ToError_def HasPrefix_def
        errorFromCode_def Code_defs Unmarshal_def ErrNotFound_def)
  have b: "fst (Client_Get (example_client [] example_doh_refusing) example_env_refusal
        (\<lambda>d v. (None, v)) ''data'' ''key'' (StringPtr ''old'' :: unit target) []
        example_world)
      = Returns (Some (ProtocolError ''E004'' ''resource not found'' []))"
    by code_simp
  from a b show ?thesis by simp
qed

section \<open>Properties of the cache\<close>

lemma map_of_delete_key_same: "map_of (delete_key k es) k = None"
  by (induction es) auto

text \<open>
  The one cache store of the client: \<^verbatim>\<open>GetRaw\<close>, after a query that returned a
  successful response and unless the cache is skipped, calls \<^verbatim>\<open>Set\<close> with the
  response's own TTL as the \<^verbatim>\<open>ttl\<close> argument.
\<close>

lemma GetRaw_query_store:
  assumes "doWithRetry env (retryConfig (config c)) (executeQuery c env queryName reqConfig) w
      = (Returns (Inr resp), w')"
    and "IsSuccess resp" and "\<not> skipCache reqConfig" and "cache w' = MemoryCache m"
  shows "GetRaw_query c env queryName cacheKey reqConfig w
      = (Returns (Inr resp),
         w'\<lparr> cache := MemoryCache (memoryCache_Set m (clock env) cacheKey resp (TTL resp)) \<rparr>)"
  using assms by (simp add: GetRaw_query_def)




section \<open>Properties of the client\<close>

text \<open>
  Claim C1, as the code has it. In every query name built by \<^verbatim>\<open>buildQueryName\<close> the
  operation is the left-most label. The NBA, CTP and BDT tokens, when supplied in the
  request options, are the labels that follow it, in the order NBA, CTP, BDT; the auth
  token, when an API key is configured, comes after them (so it is next to the operation
  only when no token is supplied), and the key, resource, namespace, version and zone
  labels end the name.
\<close>

theorem buildQueryName_labels:
  "(let labels = [operation]
       @ (if nbaToken reqConfig \<noteq> [] then [nbaToken reqConfig] else [])
       @ (if ctpToken reqConfig \<noteq> [] then [ctpToken reqConfig] else [])
       @ (if bdtToken reqConfig \<noteq> [] then [bdtToken reqConfig] else [])
       @ (if apiKey (config c) \<noteq> [] then [generateAuthToken c env operation resource key] else [])
       @ (if key \<noteq> [] then [sanitizeLabel key] else [])
       @ [sanitizeLabel resource,
          if namespace (config c) \<noteq> [] then sanitizeLabel (namespace (config c)) else ''public'',
          version (config c), ''resolvedb'', tld (config c)]
    in buildQueryName_parts c env operation resource key reqConfig = Returns labels
       \<and> buildQueryName c env operation resource key reqConfig = Returns (Join labels ''.''))"
  by (simp add: buildQueryName_def buildQueryName_parts_def insertAfter_def go_bind_def Let_def)

text \<open>
  The theorem at work on the name of a read without API key and without tokens, and on
  a read with an API key and all three tokens.
\<close>

theorem buildQueryName_labels_witness:
  "buildQueryName (example_client [] example_doh) example_env ''get'' ''weather'' ''new york''
       requestConfig_zero
     = Returns ''get.new-york.weather.myapp.v1.resolvedb.net''
   \<and> buildQueryName (example_client ''K'' example_doh) example_env ''get'' ''weather''
       ''new york'' example_tokens
     = Returns (''get.sig-aa-t-1.ctp-bb.bdt-cc.auth-abababababababababababababababab-t-1700000000''
          @ ''.new-york.weather.myapp.v1.resolvedb.net'')"
proof -
  have a: "buildQueryName (example_client [] example_doh) example_env ''get'' ''weather''
      ''new york'' requestConfig_zero
      = Returns (Join ([''get''] @ [] @ [] @ [] @ [] @ [sanitizeLabel ''new york'']
          @ [sanitizeLabel ''weather'', sanitizeLabel ''myapp'', ''v1'', ''resolvedb'', ''net''])
          ''.'')"
    using buildQueryName_labels [where operation = "''get''" and reqConfig = requestConfig_zero
        and c = "example_client [] example_doh" and env = example_env
        and resource = "''weather''" and key = "''new york''"]
    by (simp add: Let_def requestConfig_zero_def example_client_def example_config_def)
  have b: "buildQueryName (example_client ''K'' example_doh) example_env ''get'' ''weather''
      ''new york'' example_tokens
      = Returns (Join ([''get''] @ [''sig-aa-t-1''] @ [''ctp-bb''] @ [''bdt-cc'']
          @ [generateAuthToken (example_client ''K'' example_doh) example_env ''get''
               ''weather'' ''new york'']
          @ [sanitizeLabel ''new york'']
          @ [sanitizeLabel ''weather'', sanitizeLabel ''myapp'', ''v1'', ''resolvedb'', ''net''])
          ''.'')"
    using buildQueryName_labels [where operation = "''get''" and reqConfig = example_tokens
        and c = "example_client ''K'' example_doh" and env = example_env
        and resource = "''weather''" and key = "''new york''"]
    by (simp add: Let_def example_tokens_def apply_opts_def requestConfig_zero_def WithNBA_def
        WithCTP_def WithBDT_def example_client_def example_config_def)
  have a': "Join ([''get''] @ [] @ [] @ [] @ [] @ [sanitizeLabel ''new york'']
          @ [sanitizeLabel ''weather'', sanitizeLabel ''myapp'', ''v1'', ''resolvedb'', ''net''])
          ''.'' = ''get.new-york.weather.myapp.v1.resolvedb.net''"
    by code_simp
  have b': "Join ([''get''] @ [''sig-aa-t-1''] @ [''ctp-bb''] @ [''bdt-cc'']
          @ [generateAuthToken (example_client ''K'' example_doh) example_env ''get''
               ''weather'' ''new york'']
          @ [sanitizeLabel ''new york'']
          @ [sanitizeLabel ''weather'', sanitizeLabel ''myapp'', ''v1'', ''resolvedb'', ''net''])
          ''.''
      = ''get.sig-aa-t-1.ctp-bb.bdt-cc.auth-abababababababababababababababab-t-1700000000''
          @ ''.new-york.weather.myapp.v1.resolvedb.net''"
    by code_simp
  show ?thesis
    unfolding a b a' b' by simp
qed

text \<open>
  The claim as worded fails on that second read: the left-most label is the operation
  \<open>get\<close>, not the NBA token, and the label next to the operation is the NBA token, not
  the auth token, which is the fifth label.
\<close>

theorem buildQueryName_counterexample:
  "buildQueryName_parts (example_client ''K'' example_doh) example_env ''get'' ''weather''
       ''new york'' example_tokens
     = Returns [''get'', ''sig-aa-t-1'', ''ctp-bb'', ''bdt-cc'',
         ''auth-abababababababababababababababab-t-1700000000'', ''new-york'', ''weather'',
         ''myapp'', ''v1'', ''resolvedb'', ''net'']"
  by code_simp

text \<open>Every query that reaches the transport is recorded on the wire, and stays there.\<close>

lemma executeQuery_wire:
  "wire (snd (executeQuery c env queryName reqConfig w))
     = wire w @ [\<lparr> q_Name = queryName, q_Type = TypeTXT,
                   q_Labels = Split queryName CHR ''.'' \<rparr>]"
  by (simp add: executeQuery_def Let_def split: prod.splits option.splits sum.splits)

text \<open>
  Claim C7. \<^verbatim>\<open>Set\<close> with an empty API key returns the unauthorized error; with an
  API key, security enforcement on and a transport that is not encrypted it returns the
  encrypted-transport-required error. In both cases the world after the call is the world
  before it: no request has reached the transport and the cache is as it was.
\<close>

theorem Set_guards:
  "(apiKey (config c) = [] \<longrightarrow>
      Client_Set c env resource key data opts w = (Returns (Some ErrUnauthorized), w))
   \<and> (apiKey (config c) \<noteq> [] \<and> enforceSecurity (config c) \<and> \<not> IsEncrypted (transport c) \<longrightarrow>
      Client_Set c env resource key data opts w = (Returns (Some ErrEncryptedTransportRequired), w))"
  by (simp add: Client_Set_def Let_def)

text \<open>
  The theorem at work: a client without API key, and a client with an API key on the
  plain DNS transport, both with the default security enforcement.
\<close>

theorem Set_guards_witness:
  "Client_Set (example_client [] example_doh) example_env ''config'' ''settings'' () []
       example_world
     = (Returns (Some ErrUnauthorized), example_world)
   \<and> Client_Set (example_client ''K'' example_dns) example_env ''config'' ''settings'' () []
       example_world
     = (Returns (Some ErrEncryptedTransportRequired), example_world)"
proof -
  have a: "apiKey (config (example_client [] example_doh)) = []"
    by (simp add: example_client_def example_config_def)
  have b: "apiKey (config (example_client ''K'' example_dns)) \<noteq> []
      \<and> enforceSecurity (config (example_client ''K'' example_dns))
      \<and> \<not> IsEncrypted (transport (example_client ''K'' example_dns))"
    by (simp add: example_client_def example_config_def example_dns_def)
  show ?thesis
    using Set_guards [where c = "example_client [] example_doh" and env = example_env
        and resource = "''config''" and key = "''settings''" and data = "()" and opts = "[]"
        and w = example_world, THEN conjunct1, rule_format, OF a]
      Set_guards [where c = "example_client ''K'' example_dns" and env = example_env
        and resource = "''config''" and key = "''settings''" and data = "()" and opts = "[]"
        and w = example_world, THEN conjunct2, rule_format, OF b]
    by simp
qed
section \<open>Properties of the label codec\<close>

lemma digits64:
  fixes val :: nat
  assumes "val < 16777216"
  shows "(val div 262144 mod 64) * 262144 + (val div 4096 mod 64) * 4096
           + (val div 64 mod 64) * 64 + val mod 64 = val"
proof -
  have a: "val mod 4096 = 64 * (val div 64 mod 64) + val mod 64"
    using mod_mult2_eq [of val 64 64] by simp
  have b: "val mod 262144 = 4096 * (val div 4096 mod 64) + val mod 4096"
    using mod_mult2_eq [of val 4096 64] by simp
  have c: "val mod 16777216 = 262144 * (val div 262144 mod 64) + val mod 262144"
    using mod_mult2_eq [of val 262144 64] by simp
  have "val mod 16777216 = val"
    using assms by simp
  with a b c show ?thesis by simp
qed

lemma bytes3:
  fixes a b c :: nat
  assumes "a < 256" "b < 256" "c < 256"
  shows "(a * 65536 + b * 256 + c) div 65536 mod 256 = a"
    and "(a * 65536 + b * 256 + c) div 256 mod 256 = b"
    and "(a * 65536 + b * 256 + c) mod 256 = c"
proof -
  have low: "b * 256 + c < 65536"
    using assms by linarith
  have "(a * 65536 + (b * 256 + c)) div 65536 = a"
    using low by simp
  then show "(a * 65536 + b * 256 + c) div 65536 mod 256 = a"
    using assms by (simp add: add.assoc)
  have "(a * 65536 + b * 256 + c) div 256 = a * 256 + b"
    using assms by simp
  then show "(a * 65536 + b * 256 + c) div 256 mod 256 = b"
    using assms by simp
  have "a * 65536 + b * 256 + c = c + 256 * (a * 256 + b)"
    by simp
  then have "(a * 65536 + b * 256 + c) mod 256 = c mod 256"
    by (simp only: mod_mult_self2)
  then show "(a * 65536 + b * 256 + c) mod 256 = c"
    using assms by simp
qed

lemma unat_byte: "unat (v :: 8 word) < 256"
  using unsigned_less [of v, where ?'a = nat] by simp

lemma of_nat_unat_byte: "(of_nat (unat v) :: 8 word) = v"
  by simp

lemma hex_table_ok:
  "list_all (\<lambda>n. fromHexChar (hextable ! n) = Some n
       \<and> toLower_char (hextable ! n) = hextable ! n) [0..<16]"
  by code_simp

lemma hex_digit:
  assumes "n < 16"
  shows "fromHexChar (hextable ! n) = Some n" and "toLower_char (hextable ! n) = hextable ! n"
  using hex_table_ok assms by (auto simp: list_all_iff)

lemma hex_roundtrip: "hex_DecodeString (ToLower (hex_EncodeToString b)) = Inr b"
proof (induction b)
  case Nil
  then show ?case by (simp add: hex_EncodeToString_def ToLower_def)
next
  case (Cons v vs)
  have hi: "unat v div 16 < 16" and lo: "unat v mod 16 < 16"
    using unat_byte [of v] by simp_all
  have sp: "ToLower (hex_EncodeToString (v # vs))
      = hextable ! (unat v div 16) # hextable ! (unat v mod 16)
          # ToLower (hex_EncodeToString vs)"
    by (simp add: hex_EncodeToString_def ToLower_def hex_digit [OF hi] hex_digit [OF lo])
  have bk: "(of_nat (unat v div 16 * 16 + unat v mod 16) :: 8 word) = v"
    by simp
  show ?case
    by (simp only: sp hex_DecodeString.simps hex_digit [OF hi] hex_digit [OF lo]
        option.case Cons.IH sum.case bk)
qed

lemma b64_table_ok: "list_all (\<lambda>n. decodeMap (enc64 n) = Some n) [0..<64]"
  by code_simp

lemma decodeMap_enc64: "i < 64 \<Longrightarrow> decodeMap (enc64 i) = Some i"
  using b64_table_ok by (auto simp: list_all_iff)

lemma quantum_4:
  "quantum [d0, d1, d2, d3] =
     [of_nat ((d0 * 262144 + d1 * 4096 + d2 * 64 + d3) div 65536 mod 256),
      of_nat ((d0 * 262144 + d1 * 4096 + d2 * 64 + d3) div 256 mod 256),
      of_nat ((d0 * 262144 + d1 * 4096 + d2 * 64 + d3) mod 256)]"
  by (simp add: quantum_def Let_def)

lemma quantum_3:
  "quantum [d0, d1, d2] =
     [of_nat ((d0 * 262144 + d1 * 4096 + d2 * 64 + 0) div 65536 mod 256),
      of_nat ((d0 * 262144 + d1 * 4096 + d2 * 64 + 0) div 256 mod 256)]"
  by (simp add: quantum_def Let_def)

lemma quantum_2:
  "quantum [d0, d1] =
     [of_nat ((d0 * 262144 + d1 * 4096 + 0 * 64 + 0) div 65536 mod 256)]"
  by (simp add: quantum_def Let_def)

lemma quantum4:
  fixes a b c :: "8 word"
  defines "val \<equiv> unat a * 65536 + unat b * 256 + unat c"
  shows "quantum [val div 262144 mod 64, val div 4096 mod 64, val div 64 mod 64, val mod 64]
           = [a, b, c]"
proof -
  have "val < 16777216"
    using unat_byte [of a] unat_byte [of b] unat_byte [of c] by (simp add: val_def)
  then have d: "(val div 262144 mod 64) * 262144 + (val div 4096 mod 64) * 4096
      + (val div 64 mod 64) * 64 + val mod 64 = val"
    by (rule digits64)
  have "quantum [val div 262144 mod 64, val div 4096 mod 64, val div 64 mod 64, val mod 64]
      = [of_nat (val div 65536 mod 256), of_nat (val div 256 mod 256), of_nat (val mod 256)]"
    by (simp only: quantum_4 d)
  also have "\<dots> = [a, b, c]"
    by (simp only: val_def bytes3 [OF unat_byte [of a] unat_byte [of b] unat_byte [of c]]
        of_nat_unat_byte)
  finally show ?thesis .
qed

lemma quantum3:
  fixes a b :: "8 word"
  defines "val \<equiv> unat a * 65536 + unat b * 256 + 0"
  shows "quantum [val div 262144 mod 64, val div 4096 mod 64, val div 64 mod 64] = [a, b]"
proof -
  have "val < 16777216"
    using unat_byte [of a] unat_byte [of b] by (simp add: val_def)
  then have d: "(val div 262144 mod 64) * 262144 + (val div 4096 mod 64) * 4096
      + (val div 64 mod 64) * 64 + val mod 64 = val"
    by (rule digits64)
  have "val = 64 * (unat a * 1024 + unat b * 4)"
    by (simp add: val_def)
  then have m: "val mod 64 = 0"
    by (simp only: mod_mult_self1_is_0)
  have "quantum [val div 262144 mod 64, val div 4096 mod 64, val div 64 mod 64]
      = [of_nat (val div 65536 mod 256), of_nat (val div 256 mod 256)]"
    using d by (simp only: quantum_3 m)
  also have "\<dots> = [a, b]"
    by (simp only: val_def bytes3 [OF unat_byte [of a] unat_byte [of b], of 0]
        of_nat_unat_byte)
  finally show ?thesis .
qed

lemma quantum2:
  fixes a :: "8 word"
  defines "val \<equiv> unat a * 65536 + 0 * 256 + 0"
  shows "quantum [val div 262144 mod 64, val div 4096 mod 64] = [a]"
proof -
  have "val < 16777216"
    using unat_byte [of a] by (simp add: val_def)
  then have d: "(val div 262144 mod 64) * 262144 + (val div 4096 mod 64) * 4096
      + (val div 64 mod 64) * 64 + val mod 64 = val"
    by (rule digits64)
  have "val = 64 * (unat a * 1024)"
    by (simp add: val_def)
  then have m: "val mod 64 = 0"
    by (simp only: mod_mult_self1_is_0)
  have "val div 64 = 64 * (unat a * 16)"
    by (simp add: val_def)
  then have m2: "val div 64 mod 64 = 0"
    by (simp only: mod_mult_self1_is_0)
  have "quantum [val div 262144 mod 64, val div 4096 mod 64]
      = [of_nat (val div 65536 mod 256)]"
    using d by (simp only: quantum_2 m m2)
  also have "\<dots> = [a]"
    by (simp only: val_def bytes3 [OF unat_byte [of a], of 0 0] of_nat_unat_byte)
  finally show ?thesis .
qed

lemma b64_roundtrip: "b64_decode_loop False [] (b64_encode False b) = Inr b"
proof (induction b rule: length_induct)
  case (1 b)
  show ?case
  proof (cases b)
    case Nil
    then show ?thesis by simp
  next
    case b1: (Cons a r1)
    show ?thesis
    proof (cases r1)
      case Nil
      with b1 show ?thesis
        using quantum2 [of a] by (simp add: Let_def decodeMap_enc64)
    next
      case b2: (Cons b' r2)
      show ?thesis
      proof (cases r2)
        case Nil
        with b1 b2 show ?thesis
          using quantum3 [of a b'] by (simp add: Let_def decodeMap_enc64)
      next
        case b3: (Cons c r3)
        have "length r3 < length b"
          by (simp add: b1 b2 b3)
        then have IH: "b64_decode_loop False [] (b64_encode False r3) = Inr r3"
          using 1 by blast
        show ?thesis
          using quantum4 [of a b' c] IH
          by (simp add: b1 b2 b3 Let_def decodeMap_enc64)
      qed
    qed
  qed
qed

lemma base64_roundtrip: "decodeBase64 (encodeBase64 b) = Inr b"
  by (simp add: decodeBase64_def encodeBase64_def b64_DecodeString_def b64_roundtrip)

lemma hex_param_roundtrip: "decodeHex (encodeHex b) = Inr b"
  by (simp add: decodeHex_def encodeHex_def hex_roundtrip)

lemma param_roundtrip: "decodeParam (encodeParam b) = Inr b"
  by (simp add: decodeParam_def encodeParam_def HasPrefix_def TrimPrefix_def PrefixHex_def
      PrefixBase64_def base64_roundtrip hex_param_roundtrip)

lemma param_prefix:
  "HasPrefix (encodeParam b) PrefixHex \<longleftrightarrow> length b \<le> 16"
  "HasPrefix (encodeParam b) PrefixBase64 \<longleftrightarrow> \<not> length b \<le> 16"
  by (simp_all add: encodeParam_def HasPrefix_def PrefixHex_def PrefixBase64_def)


text \<open>
  Claim C6. For every byte string of at most 1024 bytes (and indeed of any length)
  decoding the encoded parameter succeeds and gives the bytes back, and the encoded
  parameter starts with \<open>hex-\<close> exactly when there are at most 16 bytes, and with
  \<open>b64-\<close> otherwise.
\<close>

theorem param_codec:
  "length b \<le> 1024 \<Longrightarrow>
     decodeParam (encodeParam b) = Inr b
     \<and> (HasPrefix (encodeParam b) PrefixHex \<longleftrightarrow> length b \<le> 16)
     \<and> (HasPrefix (encodeParam b) PrefixBase64 \<longleftrightarrow> \<not> length b \<le> 16)"
  by (simp add: param_roundtrip param_prefix)

theorem param_codec_witness:
  "decodeParam (encodeParam [1, 2, 255]) = Inr [1, 2, 255]
   \<and> encodeParam [1, 2, 255] = ''hex-0102ff''
   \<and> decodeParam (encodeParam [0, 1, 2, 3, 4, 5, 6, 7, 8, 9, 10, 11, 12, 13, 14, 15, 16])
       = Inr [0, 1, 2, 3, 4, 5, 6, 7, 8, 9, 10, 11, 12, 13, 14, 15, 16]
   \<and> encodeParam [0, 1, 2, 3, 4, 5, 6, 7, 8, 9, 10, 11, 12, 13, 14, 15, 16]
       = ''b64-AAECAwQFBgcICQoLDA0ODxA''"
proof -
  let ?l = "[0, 1, 2, 3, 4, 5, 6, 7, 8, 9, 10, 11, 12, 13, 14, 15, 16] :: 8 word list"
  have s: "length [1, 2, 255 :: 8 word] \<le> 1024"
    by simp
  have l: "length ?l \<le> 1024"
    by simp
  have a: "decodeParam (encodeParam [1, 2, 255]) = Inr [1, 2, 255]"
    using param_codec [OF s] by (rule conjunct1)
  have b: "decodeParam (encodeParam ?l) = Inr ?l"
    using param_codec [OF l] by (rule conjunct1)
  have c: "encodeParam [1, 2, 255] = ''hex-0102ff''"
    by (simp add: encodeParam_def encodeHex_def hex_EncodeToString_def hextable_def
        PrefixHex_def)
  have d: "encodeParam ?l = ''b64-AAECAwQFBgcICQoLDA0ODxA''"
    by (simp add: encodeParam_def encodeBase64_def enc64_def encodeURL_def PrefixBase64_def
        Let_def)
  show ?thesis
    by (intro conjI a b c d)
qed

text \<open>
  What \<^verbatim>\<open>sanitizeLabel\<close> does guarantee for every input: only the characters a to z,
  0 to 9 and the hyphen; at most 63 of them; and no hyphen in front.
\<close>

lemma sanitize_rune_chars:
  "c \<in> set (sanitize_rune r) \<Longrightarrow>
     (CHR ''a'' \<le> c \<and> c \<le> CHR ''z'') \<or> (CHR ''0'' \<le> c \<and> c \<le> CHR ''9'') \<or> c = CHR ''-''"
  by (auto simp: sanitize_rune_def split: if_splits)

lemma set_Trim: "set (Trim s cs) \<subseteq> set s"
proof -
  have "set (dropWhile P xs) \<subseteq> set xs" for P and xs :: string
    by (auto dest: set_dropWhileD)
  then show ?thesis
    unfolding Trim_def by (metis set_rev subset_trans)
qed

lemma sanitizeLabel_chars:
  assumes "c \<in> set (sanitizeLabel s)"
  shows "(CHR ''a'' \<le> c \<and> c \<le> CHR ''z'') \<or> (CHR ''0'' \<le> c \<and> c \<le> CHR ''9'') \<or> c = CHR ''-''"
proof -
  have "set (sanitizeLabel s) \<subseteq> set (Trim (concat (map sanitize_rune (ToLower s))) ''-'')"
    by (auto simp: sanitizeLabel_def Let_def dest: in_set_takeD)
  with assms set_Trim obtain r where "c \<in> set (sanitize_rune r)"
    by fastforce
  then show ?thesis
    by (rule sanitize_rune_chars)
qed

lemma sanitizeLabel_length: "length (sanitizeLabel s) \<le> 63"
  by (simp add: sanitizeLabel_def Let_def)

lemma hd_Trim:
  assumes "Trim s cs \<noteq> []"
  shows "hd (Trim s cs) \<notin> set cs"
proof -
  let ?P = "\<lambda>c. c \<in> set cs"
  let ?xs = "dropWhile ?P s"
  have ne: "?xs \<noteq> []"
  proof
    assume e: "?xs = []"
    have "Trim s cs = []"
      unfolding Trim_def e by simp
    with assms show False ..
  qed
  then obtain x ys where xs: "?xs = x # ys"
    by (cases ?xs) auto
  have nx: "\<not> ?P x"
    using hd_dropWhile [OF ne] xs by simp
  have "\<exists>zs. dropWhile ?P (rev ys @ [x]) = zs @ [x]"
    using nx by (cases "\<forall>y \<in> set (rev ys). ?P y") (auto simp: dropWhile_append)
  then obtain zs where "dropWhile ?P (rev ?xs) = zs @ [x]"
    using xs by auto
  then have "Trim s cs = x # rev zs"
    by (simp add: Trim_def)
  with nx show ?thesis by simp
qed

lemma sanitizeLabel_hd:
  assumes "sanitizeLabel s \<noteq> []"
  shows "hd (sanitizeLabel s) \<noteq> CHR ''-''"
proof -
  let ?t = "Trim (concat (map sanitize_rune (ToLower s))) ''-''"
  have ne: "?t \<noteq> []"
    using assms by (auto simp: sanitizeLabel_def Let_def split: if_splits)
  have "hd (sanitizeLabel s) = hd ?t"
    using ne by (simp add: sanitizeLabel_def Let_def hd_take)
  with hd_Trim [OF ne] show ?thesis by simp
qed

text \<open>A string of hyphens is trimmed to the empty label.\<close>

lemma sanitizeLabel_hyphens: "sanitizeLabel ''--'' = []"
  by code_simp

text \<open>
  Claim C5 at the input of 62 letters \<open>a\<close> followed by \<open>-a\<close> (64 bytes, all of them
  allowed characters). The hyphens are trimmed before the label is cut to 63 bytes, so
  the cut leaves the 62 letters and the hyphen: a label that ends with a hyphen, where
  the claim (and the comment in the code) wants it to end with a letter or a digit.
\<close>

theorem sanitizeLabel_ends_with_hyphen:
  "sanitizeLabel (replicate 62 CHR ''a'' @ ''-a'') = replicate 62 CHR ''a'' @ ''-''
   \<and> length (sanitizeLabel (replicate 62 CHR ''a'' @ ''-a'')) = 63
   \<and> last (sanitizeLabel (replicate 62 CHR ''a'' @ ''-a'')) = CHR ''-''"
  by code_simp

section \<open>Properties of the DNS wire format reader\<close>

lemma parseAnswers_records:
  "t_Records (parseAnswers data n offset resp)
     = t_Records resp @ map a_rdata (answerRecords data n offset)"
  by (induction n arbitrary: offset resp) (auto split: option.splits)

lemma parseAnswers_ttl:
  "t_TTL (parseAnswers data n offset resp)
     = (if t_TTL resp \<noteq> 0 then t_TTL resp
        else first_nonzero (map a_ttl (answerRecords data n offset)))"
  by (induction n arbitrary: offset resp) (auto split: option.splits)

text \<open>
  Claim C3, as the code has it. For every DNS response message the parser accepts, the
  TTL it returns is the TTL of the first answer record read whose TTL is not zero (and
  zero when there is none); the records it returns are those answer records, in order.
\<close>

theorem parseDNSResponse_ttl:
  "parseDNSResponse data = Inr resp \<Longrightarrow>
     t_TTL resp = first_nonzero (map a_ttl (answers data))
     \<and> t_Records resp = map a_rdata (answers data)"
  by (auto simp: parseDNSResponse_def answers_def Let_def parseAnswers_ttl parseAnswers_records
      split: if_splits)

text \<open>
  A response with one question and two TXT answers, the first with a TTL of 300 seconds
  and the text \<open>hi\<close>, the second with a TTL of 60 seconds and the text \<open>ho\<close>. The
  parser returns 300, the first TTL; the smallest TTL that is not zero is 60.
\<close>

theorem parseDNSResponse_ttl_witness:
  "parseDNSResponse example_message
     = Inr \<lparr> t_Data = [0x68, 0x69, 0x68, 0x6F], t_TTL = 300,
             t_Records = [[0x68, 0x69], [0x68, 0x6F]] \<rparr>
   \<and> first_nonzero (map a_ttl (answers example_message)) = 300
   \<and> map a_rdata (answers example_message) = [[0x68, 0x69], [0x68, 0x6F]]"
proof -
  have p: "parseDNSResponse example_message
      = Inr \<lparr> t_Data = [0x68, 0x69, 0x68, 0x6F], t_TTL = 300,
              t_Records = [[0x68, 0x69], [0x68, 0x6F]] \<rparr>"
    by code_simp
  show ?thesis
    using parseDNSResponse_ttl [OF p] p by simp
qed

theorem parseDNSResponse_ttl_counterexample:
  "parseDNSResponse example_message
     = Inr \<lparr> t_Data = [0x68, 0x69, 0x68, 0x6F], t_TTL = 300,
             t_Records = [[0x68, 0x69], [0x68, 0x6F]] \<rparr>
   \<and> map a_ttl (answers example_message) = [300, 60]
   \<and> smallest_nonzero (map a_ttl (answers example_message)) = 60"
  by code_simp

section \<open>Properties of the encryption context\<close>

lemma byte_bit:
  fixes c :: "64 word"
  assumes "k \<le> n" "n < k + 8"
  shows "bit (ucast (drop_bit k c) :: 8 word) (n - k) = bit c n"
proof -
  have "n - k < 8"
    using assms by arith
  then show ?thesis
    using assms by (simp add: bit_ucast_iff bit_drop_bit_eq)
qed

lemma byte_eq_bit:
  fixes c c' :: "64 word"
  assumes "(ucast (drop_bit k c) :: 8 word) = ucast (drop_bit k c')" "k \<le> n" "n < k + 8"
  shows "bit c n = bit c' n"
  using byte_bit [OF assms(2,3), of c] byte_bit [OF assms(2,3), of c'] assms(1) by simp

lemma counter_bytes_inj:
  assumes "counter_bytes c = counter_bytes c'"
  shows "c = c'"
proof (rule bit_word_eqI)
  fix n
  assume "n < LENGTH(64)"
  then have n: "n < 64" by simp
  have b7: "(ucast (drop_bit 56 c) :: 8 word) = ucast (drop_bit 56 c')"
    and b6: "(ucast (drop_bit 48 c) :: 8 word) = ucast (drop_bit 48 c')"
    and b5: "(ucast (drop_bit 40 c) :: 8 word) = ucast (drop_bit 40 c')"
    and b4: "(ucast (drop_bit 32 c) :: 8 word) = ucast (drop_bit 32 c')"
    and b3: "(ucast (drop_bit 24 c) :: 8 word) = ucast (drop_bit 24 c')"
    and b2: "(ucast (drop_bit 16 c) :: 8 word) = ucast (drop_bit 16 c')"
    and b1: "(ucast (drop_bit 8 c) :: 8 word) = ucast (drop_bit 8 c')"
    and b0: "(ucast (drop_bit 0 c) :: 8 word) = ucast (drop_bit 0 c')"
    using assms by (simp_all add: counter_bytes_def)
  consider "n < 8" | "8 \<le> n \<and> n < 16" | "16 \<le> n \<and> n < 24" | "24 \<le> n \<and> n < 32"
    | "32 \<le> n \<and> n < 40" | "40 \<le> n \<and> n < 48" | "48 \<le> n \<and> n < 56" | "56 \<le> n \<and> n < 64"
    using n by linarith
  then show "bit c n = bit c' n"
  proof cases
    case 1 then show ?thesis using byte_eq_bit [OF b0, of n] by simp
  next
    case 2 then show ?thesis using byte_eq_bit [OF b1, of n] by simp
  next
    case 3 then show ?thesis using byte_eq_bit [OF b2, of n] by simp
  next
    case 4 then show ?thesis using byte_eq_bit [OF b3, of n] by simp
  next
    case 5 then show ?thesis using byte_eq_bit [OF b4, of n] by simp
  next
    case 6 then show ?thesis using byte_eq_bit [OF b5, of n] by simp
  next
    case 7 then show ?thesis using byte_eq_bit [OF b6, of n] by simp
  next
    case 8 then show ?thesis using byte_eq_bit [OF b7, of n] by simp
  qed
qed

lemma length_counter_bytes: "length (counter_bytes c) = 8"
  by (simp add: counter_bytes_def)

lemma length_random_bytes: "length (random_bytes r) = 4"
  by (simp add: random_bytes_def)

lemma Encrypt_state: "snd (Encrypt seal e p rnd) = e\<lparr> e_counter := e_counter e + 1 \<rparr>"
  by (simp add: Encrypt_def generateNonce_def Let_def split: sum.splits)

lemma Encrypt_result:
  "fst (Encrypt seal e p rnd) =
     (if e_counter e + 1 = 0 then Inl ErrNonceExhausted
      else (case rnd of
              Inl err \<Rightarrow> Inl (Wrapped ''generate random'' err)
            | Inr r \<Rightarrow>
                Inr ((counter_bytes (e_counter e + 1) @ random_bytes r)
                     @ seal (e_key e) (counter_bytes (e_counter e + 1) @ random_bytes r) p)))"
  by (simp add: Encrypt_def generateNonce_def Let_def split: sum.splits)

lemma nonce_of_Encrypt:
  "nonce_of (fst (Encrypt seal e p rnd)) =
     (if e_counter e + 1 = 0 then None
      else (case rnd of
              Inl err \<Rightarrow> None
            | Inr r \<Rightarrow> Some (counter_bytes (e_counter e + 1) @ random_bytes r)))"
  by (simp add: Encrypt_result nonce_of_def length_counter_bytes length_random_bytes
      split: sum.splits)

lemma Encrypt_calls_nth:
  "i < length calls \<Longrightarrow>
     Encrypt_calls seal e calls ! i
       = fst (Encrypt seal (e\<lparr> e_counter := e_counter e + of_nat i \<rparr>)
            (fst (calls ! i)) (snd (calls ! i)))"
proof (induction calls arbitrary: e i)
  case Nil
  then show ?case by simp
next
  case (Cons call calls)
  obtain p rnd where call: "call = (p, rnd)"
    by (cases call)
  show ?case
  proof (cases i)
    case 0
    then show ?thesis
      by (simp add: call split: prod.splits)
  next
    case (Suc k)
    have "Encrypt_calls seal e (call # calls) ! i
        = Encrypt_calls seal (snd (Encrypt seal e p rnd)) calls ! k"
      by (simp add: call Suc split: prod.splits)
    also have "\<dots> = fst (Encrypt seal
        ((snd (Encrypt seal e p rnd))\<lparr> e_counter := e_counter (snd (Encrypt seal e p rnd)) + of_nat k \<rparr>)
        (fst (calls ! k)) (snd (calls ! k)))"
      using Cons.prems Suc by (intro Cons.IH) simp
    finally show ?thesis
      by (simp add: Encrypt_state Suc ac_simps)
  qed
qed

text \<open>
  On a fresh context the \<open>i\<close>-th call (counting from zero) works with the counter
  value \<open>i + 1\<close>. Two successful calls among the first \<open>2^64 - 1\<close> never share a
  nonce, and call number \<open>2^64\<close> is refused with the nonce-exhausted error.
\<close>

lemma nonce_unique_before_wrap:
  assumes fresh: "e_counter e = 0"
    and ij: "i < j" "j < length calls" "j + 1 < 2 ^ 64"
    and n1: "nonce_of (Encrypt_calls seal e calls ! i) = Some n1"
    and n2: "nonce_of (Encrypt_calls seal e calls ! j) = Some n2"
  shows "n1 \<noteq> n2"
proof
  assume eq: "n1 = n2"
  have i: "i < length calls"
    using ij by simp
  obtain r1 where r1: "n1 = counter_bytes (of_nat i + 1) @ random_bytes r1"
    using n1 by (auto simp: Encrypt_calls_nth [OF i] nonce_of_Encrypt fresh
        split: if_splits sum.splits)
  obtain r2 where r2: "n2 = counter_bytes (of_nat j + 1) @ random_bytes r2"
    using n2 by (auto simp: Encrypt_calls_nth [OF ij(2)] nonce_of_Encrypt fresh
        split: if_splits sum.splits)
  have "counter_bytes (of_nat i + 1) = counter_bytes (of_nat j + 1)"
    using eq r1 r2 by (simp add: length_counter_bytes)
  then have "(of_nat i + 1 :: 64 word) = of_nat j + 1"
    by (rule counter_bytes_inj)
  then have "(of_nat i :: 64 word) = of_nat j"
    by simp
  then have "unat (of_nat i :: 64 word) = unat (of_nat j :: 64 word)"
    by (rule arg_cong)
  then have "i mod 2 ^ 64 = j mod 2 ^ 64"
    unfolding unat_of_nat by simp
  moreover have "i mod 2 ^ 64 = i" and "j mod 2 ^ 64 = j"
    using ij by simp_all
  ultimately have "i = j"
    by simp
  with ij show False by simp
qed

lemma nonce_exhausted_at_wrap:
  assumes fresh: "e_counter e = 0"
    and len: "18446744073709551615 < length calls"
  shows "Encrypt_calls seal e calls ! 18446744073709551615 = Inl ErrNonceExhausted"
  by (simp add: Encrypt_calls_nth [OF len] Encrypt_result fresh)

text \<open>
  Claim C9 on a run of \<open>2^64 + 1\<close> calls on a fresh context, each with the same
  plaintext and the same four random bytes. The first call succeeds with counter value
  1; call number \<open>2^64\<close> wraps the counter to zero and is refused; the counter is then
  zero again, so the next call succeeds with counter value 1 as the first call did, and
  its nonce is the nonce of the first call.
\<close>

theorem Encrypt_nonce_reuse_after_wrap:
  "(let calls = replicate 18446744073709551617 (p, Inr r);
        results = Encrypt_calls seal \<lparr> e_key = k, e_counter = 0 \<rparr> calls
    in nonce_of (results ! 0) = Some (counter_bytes 1 @ random_bytes r)
       \<and> results ! 18446744073709551615 = Inl ErrNonceExhausted
       \<and> nonce_of (results ! 18446744073709551616) = Some (counter_bytes 1 @ random_bytes r))"
proof -
  let ?calls = "replicate 18446744073709551617 (p, Inr r :: error + 32 word)"
  let ?e = "\<lparr> e_key = k, e_counter = 0 \<rparr>"
  have wrap: "(18446744073709551616 :: 64 word) = 0"
    by simp
  have first: "nonce_of (Encrypt_calls seal ?e ?calls ! 0) = Some (counter_bytes 1 @ random_bytes r)"
    by (simp add: Encrypt_calls_nth nonce_of_Encrypt)
  have refused: "Encrypt_calls seal ?e ?calls ! 18446744073709551615 = Inl ErrNonceExhausted"
    by (simp add: Encrypt_calls_nth Encrypt_result)
  have again: "nonce_of (Encrypt_calls seal ?e ?calls ! 18446744073709551616)
      = Some (counter_bytes 1 @ random_bytes r)"
    by (simp add: Encrypt_calls_nth nonce_of_Encrypt wrap)
  show ?thesis
    unfolding Let_def by (intro conjI first refused again)
qed

end
